theory Spec2Isabelle
  imports Main
begin

section \<open>The store\<close>

text \<open>
  The backend keeps everything in one SQLite database. A table is modelled as the list
  of its rows in insertion order, so that duplicate rows are expressible and a uniqueness
  constraint is a property of the list, not of the type. Only the columns that the
  modelled handlers read or write are carried (the AUTOINCREMENT ids, the users'
  name, email, password and avatar are left out).

  A text column that no writer ever leaves empty of a value is a \<open>string\<close>; a nullable
  one is a \<open>string option\<close> with \<open>None\<close> for SQL NULL. The column
  \<open>watch_progress.episodes_watched\<close> is nullable in earnest: the handler of
  \<open>POST /watch-status/{user_id}\<close> binds an \<open>Optional[int]\<close> to it.

  Timestamps (\<open>CURRENT_TIMESTAMP\<close>) are natural numbers; every handler that writes one
  takes the time of the call as an argument.
\<close>

type_synonym timestamp = nat

datatype Status = PLANNED | WATCHING | COMPLETED | DROPPED

record user_row =
  u_user_id :: string
  u_level :: int
  u_exp :: int

record progress_row =
  wp_user_id :: string
  wp_anime_id :: string
  wp_title :: "string option"
  wp_image_url :: "string option"
  wp_status :: Status
  wp_episodes_watched :: "int option"
  wp_total_episodes :: "int option"
  wp_last_watch_date :: timestamp

record recent_row =
  rc_user_id :: string
  rc_anime_id :: string
  rc_title :: "string option"
  rc_image_url :: "string option"
  rc_viewed_at :: timestamp

record favorite_row =
  fav_user_id :: string
  fav_anime_id :: string
  fav_title :: "string option"
  fav_image_url :: "string option"
  fav_created_at :: timestamp

record achievement_row =
  ach_id :: int
  ach_exp_reward :: int

record user_achievement_row =
  ua_user_id :: string
  ua_achievement_id :: int
  ua_unlocked_at :: timestamp

record tables =
  users :: "user_row list"
  watch_progress :: "progress_row list"
  recent :: "recent_row list"
  favorites :: "favorite_row list"
  achievements :: "achievement_row list"
  user_achievements :: "user_achievement_row list"

subsection \<open>The shared connection\<close>

text \<open>
  Every handler but \<open>update_watch_progress\<close> works on the process-wide connection
  \<open>conn\<close> and its \<open>cursor\<close>. The connection is opened with Python's default
  transaction control: \<open>cursor.execute\<close> issues \<open>BEGIN\<close> by itself before an INSERT,
  UPDATE or DELETE when no transaction is open, before it binds the parameters, and
  nothing ends the transaction but \<open>conn.commit()\<close> and \<open>conn.rollback()\<close>. A handler
  that raises between the two leaves the transaction open for the handlers after it.

  \<^item> \<open>Idle\<close>: no transaction is open.
  \<^item> \<open>Begun\<close>: \<open>BEGIN\<close> has been issued and no statement has run since; the
    connection holds no lock on the file.
  \<^item> \<open>Holding t\<close>: a statement has run inside the open transaction. The connection
    sees the tables \<open>t\<close>, the committed ones with its own uncommitted changes, and
    holds a lock on the file that keeps every other connection from committing.
\<close>

datatype txn_state = Idle | Begun | Holding tables

record store =
  committed :: tables
  transaction :: txn_state

text \<open>The tables as the shared connection reads them.\<close>

definition view :: "store \<Rightarrow> tables" where
  "view db = (case transaction db of Holding t \<Rightarrow> t | _ \<Rightarrow> committed db)"

text \<open>A SELECT on the shared connection: inside a transaction it takes the lock.\<close>

definition after_read :: "store \<Rightarrow> store" where
  "after_read db =
     (case transaction db of Begun \<Rightarrow> db\<lparr>transaction := Holding (committed db)\<rparr> | _ \<Rightarrow> db)"

text \<open>The implicit \<open>BEGIN\<close> before a data-changing statement.\<close>

definition implicit_begin :: "store \<Rightarrow> store" where
  "implicit_begin db = (case transaction db of Idle \<Rightarrow> db\<lparr>transaction := Begun\<rparr> | _ \<Rightarrow> db)"

text \<open>
  A data-changing statement that has run on the shared connection and left it with
  the tables \<open>t\<close>; also one that failed on a constraint, with \<open>t\<close> the tables as they
  were: the statement is undone, the transaction and its lock stay.
\<close>

definition after_write :: "tables \<Rightarrow> store \<Rightarrow> store" where
  "after_write t db = db\<lparr>transaction := Holding t\<rparr>"

definition commit :: "store \<Rightarrow> store" where
  "commit db = \<lparr>committed = view db, transaction = Idle\<rparr>"

definition rollback :: "store \<Rightarrow> store" where
  "rollback db = db\<lparr>transaction := Idle\<rparr>"

subsection \<open>Integers\<close>

text \<open>
  An SQLite INTEGER is a signed 64-bit integer. Python's integers are unbounded:
  binding one outside this range raises \<open>OverflowError\<close>. SQLite's own arithmetic
  does not fail on overflow: the result is then a floating-point value (REAL), which
  stays in the column as such. The model has integer columns only and stops there: the
  outcome \<open>Stores_REAL\<close> of a handler says that it returned the body given and that
  one of its statements left a REAL in an integer column; what the store holds then is
  outside the model.
\<close>

definition sqlite_int :: "int \<Rightarrow> bool" where
  "sqlite_int i \<longleftrightarrow> - 9223372036854775808 \<le> i \<and> i \<le> 9223372036854775807"

text \<open>
  What a handler raises: an \<open>HTTPException\<close> with its status code, or a Python
  \<open>TypeError\<close> or \<open>OverflowError\<close> that no \<open>except\<close> clause of the handler catches.
\<close>

datatype error = HTTPException nat | TypeError | OverflowError

text \<open>What a call does: it returns its JSON body or raises, and leaves a store.\<close>

datatype 'a outcome = Returns 'a store | Raises error store | Stores_REAL 'a

definition store_of :: "'a outcome \<Rightarrow> store option" where
  "store_of r = (case r of Returns _ db \<Rightarrow> Some db | Raises _ db \<Rightarrow> Some db | Stores_REAL _ \<Rightarrow> None)"

subsection \<open>SQL statements on a table\<close>

definition sql_select :: "('r \<Rightarrow> bool) \<Rightarrow> 'r list \<Rightarrow> 'r list" where
  "sql_select P rows = filter P rows"

definition fetchone :: "'r list \<Rightarrow> 'r option" where
  "fetchone rows = (case rows of [] \<Rightarrow> None | r # _ \<Rightarrow> Some r)"

definition sql_update :: "('r \<Rightarrow> bool) \<Rightarrow> ('r \<Rightarrow> 'r) \<Rightarrow> 'r list \<Rightarrow> 'r list" where
  "sql_update P f rows = map (\<lambda>r. if P r then f r else r) rows"

definition sql_delete :: "('r \<Rightarrow> bool) \<Rightarrow> 'r list \<Rightarrow> 'r list" where
  "sql_delete P rows = filter (\<lambda>r. \<not> P r) rows"

definition sql_insert :: "'r \<Rightarrow> 'r list \<Rightarrow> 'r list" where
  "sql_insert r rows = rows @ [r]"

text \<open>\<open>cursor.rowcount\<close> after an UPDATE or a DELETE with the condition \<open>P\<close>.\<close>

definition rowcount :: "('r \<Rightarrow> bool) \<Rightarrow> 'r list \<Rightarrow> nat" where
  "rowcount P rows = length (filter P rows)"

text \<open>\<open>INSERT ... ON CONFLICT(key) DO UPDATE SET ...\<close>\<close>

definition sql_upsert :: "('r \<Rightarrow> bool) \<Rightarrow> 'r \<Rightarrow> ('r \<Rightarrow> 'r) \<Rightarrow> 'r list \<Rightarrow> 'r list" where
  "sql_upsert same_key r f rows =
     (if \<exists>x\<in>set rows. same_key x then sql_update same_key f rows else sql_insert r rows)"

definition is_user :: "string \<Rightarrow> user_row \<Rightarrow> bool" where
  "is_user uid u \<longleftrightarrow> u_user_id u = uid"

text \<open>The user's row as the shared connection reads it.\<close>

definition select_user :: "store \<Rightarrow> string \<Rightarrow> user_row option" where
  "select_user db uid = fetchone (sql_select (is_user uid) (users (view db)))"

section \<open>Leveling\<close>

text \<open>
  The statement shared by \<open>update_watch_progress\<close> and \<open>unlock_achievement\<close>:
  \<^verbatim>\<open>
  UPDATE users
  SET exp = exp + ?,
      level = CASE WHEN exp + ? >= level * 1000 THEN level + 1 ELSE level END
  WHERE user_id = ?
  \<close>
  Both right-hand sides read the row as it was before the statement. \<open>award_exp\<close> is
  the row it leaves, when \<open>exp + ?\<close> is an INTEGER, which \<open>exp_fits\<close> says, and
  \<open>None\<close> when it is a REAL. In the first case the comparison is the one of the
  integers, also where \<open>level * 1000\<close> overflows (the REAL it becomes lies beyond every
  INTEGER on the same side), and \<open>level + 1\<close> is taken only where it fits.
\<close>

definition exp_fits :: "int \<Rightarrow> user_row \<Rightarrow> bool" where
  "exp_fits n u \<longleftrightarrow>
     sqlite_int (u_level u) \<and> sqlite_int (u_exp u) \<and> sqlite_int n \<and> sqlite_int (u_exp u + n)"

definition award_exp :: "int \<Rightarrow> user_row \<Rightarrow> user_row option" where
  "award_exp n u =
     (if exp_fits n u
      then Some (u\<lparr>u_exp := u_exp u + n,
                  u_level := (if u_exp u + n \<ge> u_level u * 1000
                              then u_level u + 1 else u_level u)\<rparr>)
      else None)"

text \<open>The statement on the table: \<open>None\<close> when it leaves a REAL in a row.\<close>

definition update_users_exp :: "int \<Rightarrow> string \<Rightarrow> user_row list \<Rightarrow> user_row list option" where
  "update_users_exp n uid rows =
     (if \<forall>u\<in>set rows. is_user uid u \<longrightarrow> award_exp n u \<noteq> None
      then Some (sql_update (is_user uid)
                   (\<lambda>u. case award_exp n u of Some u' \<Rightarrow> u' | None \<Rightarrow> u) rows)
      else None)"

subsection \<open>watch_episode\<close>

text \<open>
  \<^verbatim>\<open>
  while new_exp >= next_level_exp:
      new_level += 1
      new_exp -= next_level_exp
      next_level_exp = 1000 * new_level
  \<close>
  The loop over its three variables, Python integers; it returns them as they are on
  exit.
\<close>

function level_up_loop :: "int \<Rightarrow> int \<Rightarrow> int \<Rightarrow> int \<times> int \<times> int" where
  "level_up_loop new_level new_exp next_level_exp =
     (if new_exp \<ge> next_level_exp
      then level_up_loop (new_level + 1) (new_exp - next_level_exp) (1000 * (new_level + 1))
      else (new_level, new_exp, next_level_exp))"
  by pat_completeness auto
termination
  by (relation "measures [\<lambda>(l, e, n). if n = 1000 * l then 0 else 1,
                          \<lambda>(l, e, n). nat (1 - l),
                          \<lambda>(l, e, n). nat e]") auto

record episode_response =
  er_level :: int
  er_exp :: int
  er_next_level_exp :: int

text \<open>
  \<open>POST /user/{user_id}/watch-episode\<close>, on the shared connection. The 404 for an
  unknown user is raised inside the handler's \<open>try\<close>, whose \<open>except Exception\<close> clause
  rolls back and raises a 500 in its place; so it does with the \<open>OverflowError\<close> of
  the UPDATE when the new level or experience does not fit an INTEGER. The rollback
  ends whatever transaction was open; the commit makes permanent whatever it held.
\<close>

definition watch_episode :: "store \<Rightarrow> string \<Rightarrow> episode_response outcome" where
  "watch_episode db user_id =
     (case select_user db user_id of
        None \<Rightarrow> Raises (HTTPException 500) (rollback db)
      | Some user_data \<Rightarrow>
          let current_level = u_level user_data;
              current_exp = u_exp user_data;
              exp_per_episode = 100;
              next_level_exp = 1000 * current_level;
              new_exp = current_exp + exp_per_episode;
              new_level = current_level;
              (new_level, new_exp, next_level_exp) = level_up_loop new_level new_exp next_level_exp
          in if \<not> (sqlite_int new_level \<and> sqlite_int new_exp)
             then Raises (HTTPException 500) (rollback db)
             else Returns
                    \<lparr>er_level = new_level, er_exp = new_exp, er_next_level_exp = next_level_exp\<rparr>
                    (commit (after_write
                       ((view db)\<lparr>users := sql_update (is_user user_id)
                                     (\<lambda>u. u\<lparr>u_level := new_level, u_exp := new_exp\<rparr>)
                                     (users (view db))\<rparr>)
                       db)))"

text \<open>
  The rollover as the specification words it: while the accumulated experience is at
  least 1000 times the level, the level goes up by one and the experience goes down by
  that threshold.
\<close>

inductive multi_step_rollover :: "int \<Rightarrow> int \<Rightarrow> int \<times> int \<Rightarrow> bool" where
  rollover_done: "e < 1000 * l \<Longrightarrow> multi_step_rollover l e (l, e)"
| rollover_step: "e \<ge> 1000 * l \<Longrightarrow> multi_step_rollover (l + 1) (e - 1000 * l) r
                  \<Longrightarrow> multi_step_rollover l e r"

code_pred multi_step_rollover .

section \<open>Watch progress\<close>

text \<open>The request body of \<open>POST /watch-progress\<close> (the pydantic model \<open>WatchProgress\<close>).\<close>

record WatchProgress =
  user_id :: string
  anime_id :: string
  title :: "string option"
  image_url :: "string option"
  status :: Status
  episodes_watched :: int
  total_episodes :: "int option"

record progress_response =
  pr_message :: string
  pr_status :: Status

definition is_progress :: "string \<Rightarrow> string \<Rightarrow> progress_row \<Rightarrow> bool" where
  "is_progress uid aid r \<longleftrightarrow> wp_user_id r = uid \<and> wp_anime_id r = aid"

definition is_recent :: "string \<Rightarrow> string \<Rightarrow> recent_row \<Rightarrow> bool" where
  "is_recent uid aid r \<longleftrightarrow> rc_user_id r = uid \<and> rc_anime_id r = aid"

text \<open>SQL \<open>COALESCE(a, b)\<close>: the first argument that is not NULL.\<close>

definition coalesce :: "'a option \<Rightarrow> 'a option \<Rightarrow> 'a option" where
  "coalesce a b = (case a of Some x \<Rightarrow> Some x | None \<Rightarrow> b)"

text \<open>
  \<^verbatim>\<open>
  status = progress.status
  if progress.total_episodes and progress.total_episodes > 0 \
     and progress.episodes_watched >= progress.total_episodes:
      status = Status.COMPLETED
  \<close>
  \<open>progress.total_episodes\<close> is falsy when it is \<open>None\<close> or \<open>0\<close>.
\<close>

definition effective_status :: "WatchProgress \<Rightarrow> Status" where
  "effective_status progress =
     (if (case total_episodes progress of
            None \<Rightarrow> False
          | Some t \<Rightarrow> t \<noteq> 0 \<and> t > 0 \<and> episodes_watched progress \<ge> t)
      then COMPLETED else status progress)"

text \<open>
  \<^verbatim>\<open>
  (old_status != Status.COMPLETED and status == Status.COMPLETED) or \
  (progress.episodes_watched > old_episodes)
  \<close>
  \<open>old_episodes\<close> is the stored column, which may be NULL; Python then raises a
  \<open>TypeError\<close> at the comparison, if the first disjunct has not decided already.
\<close>

definition cascade_condition :: "Status option \<Rightarrow> int option \<Rightarrow> Status \<Rightarrow> int \<Rightarrow> error + bool" where
  "cascade_condition old_status old_episodes new_status watched =
     (if old_status \<noteq> Some COMPLETED \<and> new_status = COMPLETED then Inr True
      else case old_episodes of
             None \<Rightarrow> Inl TypeError
           | Some n \<Rightarrow> Inr (watched > n))"

text \<open>
  The handler's reads of the row it is about to replace, on a connection of its own,
  which sees the committed tables:
  \<^verbatim>\<open>
  SELECT title, image_url, status, episodes_watched
  FROM watch_progress WHERE user_id = ? AND anime_id = ?
  ...
  old_status = existing[2] if existing else None
  old_episodes = existing[3] if existing else 0
  \<close>
\<close>

definition existing_progress :: "store \<Rightarrow> string \<Rightarrow> string \<Rightarrow> progress_row option" where
  "existing_progress db uid aid =
     fetchone (sql_select (is_progress uid aid) (watch_progress (committed db)))"

definition old_status :: "progress_row option \<Rightarrow> Status option" where
  "old_status existing = (case existing of Some r \<Rightarrow> Some (wp_status r) | None \<Rightarrow> None)"

definition old_episodes :: "progress_row option \<Rightarrow> int option" where
  "old_episodes existing = (case existing of Some r \<Rightarrow> wp_episodes_watched r | None \<Rightarrow> Some 0)"

text \<open>
  \<^verbatim>\<open>
  title = progress.title if progress.title is not None else (existing[0] if existing else None)
  \<close>
  and the same for \<open>image_url\<close>, with the column read from the existing row.
\<close>

definition given_or_existing ::
  "string option \<Rightarrow> (progress_row \<Rightarrow> string option) \<Rightarrow> progress_row option \<Rightarrow> string option" where
  "given_or_existing given column existing =
     (case given of
        Some v \<Rightarrow> Some v
      | None \<Rightarrow> (case existing of Some r \<Rightarrow> column r | None \<Rightarrow> None))"

text \<open>
  \<open>POST /watch-progress\<close>. The handler opens a connection of its own to the database
  file, inside \<open>with sqlite3.connect(...)\<close>: it reads and changes the committed tables,
  an exception leaves them as they were, and the shared connection's transaction is
  not touched. While the shared connection holds its lock, the handler's writes cannot
  be committed: SQLite gives up with "database is locked", an \<open>sqlite3.Error\<close>. That
  error, the 404 for an unknown user, the \<open>OverflowError\<close> of binding a count that
  does not fit an INTEGER and the \<open>TypeError\<close> of the comparison all end in a 500.
\<close>

definition update_watch_progress ::
  "store \<Rightarrow> timestamp \<Rightarrow> WatchProgress \<Rightarrow> progress_response outcome" where
  "update_watch_progress db now progress =
     (case transaction db of
        Holding t \<Rightarrow> Raises (HTTPException 500) db
      | _ \<Rightarrow>
        if fetchone (sql_select (is_user (user_id progress)) (users (committed db))) = None
        then Raises (HTTPException 500) db
        else
          let existing = existing_progress db (user_id progress) (anime_id progress);
              title' = given_or_existing (title progress) wp_title existing;
              image_url' = given_or_existing (image_url progress) wp_image_url existing;
              status' = effective_status progress
          in
          if \<not> (sqlite_int (episodes_watched progress) \<and>
                 (case total_episodes progress of None \<Rightarrow> True | Some n \<Rightarrow> sqlite_int n))
          then Raises (HTTPException 500) db
          else
            let tabs1 = (committed db)\<lparr>watch_progress :=
                      sql_upsert (is_progress (user_id progress) (anime_id progress))
                        \<lparr>wp_user_id = user_id progress, wp_anime_id = anime_id progress,
                         wp_title = title', wp_image_url = image_url', wp_status = status',
                         wp_episodes_watched = Some (episodes_watched progress),
                         wp_total_episodes = total_episodes progress,
                         wp_last_watch_date = now\<rparr>
                        (\<lambda>r. r\<lparr>wp_episodes_watched := Some (episodes_watched progress),
                               wp_total_episodes := total_episodes progress,
                               wp_status := status',
                               wp_title := coalesce title' (wp_title r),
                               wp_image_url := coalesce image_url' (wp_image_url r),
                               wp_last_watch_date := now\<rparr>)
                        (watch_progress (committed db))\<rparr>;
                resp = \<lparr>pr_message = ''Progress updated successfully'', pr_status = status'\<rparr>
            in case cascade_condition (old_status existing) (old_episodes existing) status'
                      (episodes_watched progress) of
                 Inl e \<Rightarrow> Raises (HTTPException 500) db
               | Inr fires \<Rightarrow>
                   if fires
                   then (case update_users_exp 100 (user_id progress) (users tabs1) of
                           None \<Rightarrow> Stores_REAL resp
                         | Some awarded \<Rightarrow>
                             Returns resp
                               (db\<lparr>committed :=
                                    tabs1\<lparr>recent :=
                                       sql_upsert (is_recent (user_id progress) (anime_id progress))
                                         \<lparr>rc_user_id = user_id progress,
                                          rc_anime_id = anime_id progress,
                                          rc_title = title', rc_image_url = image_url',
                                          rc_viewed_at = now\<rparr>
                                         (\<lambda>r. r\<lparr>rc_viewed_at := now\<rparr>)
                                         (recent tabs1),
                                     users := awarded\<rparr>\<rparr>))
                   else Returns resp (db\<lparr>committed := tabs1\<rparr>))"

subsection \<open>Reading the progress back\<close>

record in_progress_item =
  ip_animeId :: string
  ip_title :: "string option"
  ip_image_url :: string
  ip_status :: Status
  ip_currentEpisode :: "int option"
  ip_episodes :: "int option"
  ip_lastWatched :: timestamp

record completed_item =
  ci_animeId :: string
  ci_title :: "string option"
  ci_image_url :: string
  ci_episodes :: "int option"
  ci_rating :: int
  ci_completedAt :: timestamp

record progress_stats =
  totalEpisodesWatched :: int
  totalTimeSpent :: int
  averageRating :: int
  completed_count :: nat
  watching_count :: nat

record user_watch_progress =
  completed :: "completed_item list"
  inProgress :: "in_progress_item list"
  stats :: progress_stats

text \<open>Python's \<open>row[2] or '/placeholder.svg'\<close>: NULL and the empty string are falsy.\<close>

definition or_placeholder :: "string option \<Rightarrow> string" where
  "or_placeholder v =
     (case v of None \<Rightarrow> ''/placeholder.svg''
              | Some s \<Rightarrow> if s = [] then ''/placeholder.svg'' else s)"

text \<open>
  \<open>ORDER BY column DESC\<close>: latest first; rows with equal keys come out in the order
  of their insertion, as SQLite's sorter leaves them.
\<close>

definition order_by_desc :: "('r \<Rightarrow> timestamp) \<Rightarrow> 'r list \<Rightarrow> 'r list" where
  "order_by_desc k rows = sort_key (\<lambda>r. - int (k r)) rows"

text \<open>
  \<open>SUM(column)\<close> skips NULLs and is NULL when it has nothing to add. It adds row by
  row and fails with "integer overflow", an \<open>sqlite3.Error\<close>, as soon as a partial sum
  leaves the INTEGER range.
\<close>

fun sum_overflows :: "int \<Rightarrow> int list \<Rightarrow> bool" where
  "sum_overflows acc [] = False"
| "sum_overflows acc (v # vs) = (\<not> sqlite_int (acc + v) \<or> sum_overflows (acc + v) vs)"

definition sql_sum :: "int option list \<Rightarrow> error + int option" where
  "sql_sum vs =
     (if sum_overflows 0 (List.map_filter id vs) then Inl (HTTPException 500)
      else if List.map_filter id vs = [] then Inr None
      else Inr (Some (sum_list (List.map_filter id vs))))"

text \<open>\<open>COUNT(DISTINCT CASE WHEN status = s THEN anime_id END)\<close>\<close>

definition count_distinct_anime :: "Status \<Rightarrow> progress_row list \<Rightarrow> nat" where
  "count_distinct_anime s rows =
     length (remdups (map wp_anime_id (filter (\<lambda>r. wp_status r = s) rows)))"

text \<open>
  \<open>GET /watch-progress/{user_id}\<close>, on the shared connection. The existence check
  runs inside \<open>with conn:\<close>, which commits when the block is left, by the early
  \<open>return\<close> as well; the reads after it change nothing, and the error of the SUM is
  answered with a 500.
\<close>

definition get_user_watch_progress :: "store \<Rightarrow> string \<Rightarrow> user_watch_progress outcome" where
  "get_user_watch_progress db uid =
     (if fetchone (sql_select (is_user uid) (users (view db))) = None
      then Returns
             \<lparr>completed = [], inProgress = [],
              stats = \<lparr>totalEpisodesWatched = 0, totalTimeSpent = 0, averageRating = 0,
                       completed_count = 0, watching_count = 0\<rparr>\<rparr>
             (commit db)
      else
        let mine = sql_select (\<lambda>r. wp_user_id r = uid) (watch_progress (view db));
            in_progress =
              map (\<lambda>row. \<lparr>ip_animeId = wp_anime_id row, ip_title = wp_title row,
                          ip_image_url = or_placeholder (wp_image_url row),
                          ip_status = wp_status row,
                          ip_currentEpisode = wp_episodes_watched row,
                          ip_episodes = wp_total_episodes row,
                          ip_lastWatched = wp_last_watch_date row\<rparr>)
                  (order_by_desc wp_last_watch_date
                     (sql_select (\<lambda>r. wp_status r = WATCHING) mine));
            completed' =
              map (\<lambda>row. \<lparr>ci_animeId = wp_anime_id row, ci_title = wp_title row,
                          ci_image_url = or_placeholder (wp_image_url row),
                          ci_episodes = wp_episodes_watched row,
                          ci_rating = 0,
                          ci_completedAt = wp_last_watch_date row\<rparr>)
                  (order_by_desc wp_last_watch_date
                     (sql_select (\<lambda>r. wp_status r = COMPLETED) mine))
        in case sql_sum (map wp_episodes_watched mine) of
             Inl e \<Rightarrow> Raises e (commit db)
           | Inr stats_row \<Rightarrow>
               let total = (case stats_row of None \<Rightarrow> 0 | Some v \<Rightarrow> v)
               in Returns
                    \<lparr>completed = completed', inProgress = in_progress,
                     stats = \<lparr>totalEpisodesWatched = total,
                              totalTimeSpent = total * 24 * 60,
                              averageRating = 0,
                              completed_count = count_distinct_anime COMPLETED mine,
                              watching_count = count_distinct_anime WATCHING mine\<rparr>\<rparr>
                    (commit db))"

section \<open>Favorites\<close>

datatype action = Add | Remove

text \<open>
  The request body \<open>FavoriteAction\<close>; \<open>action\<close> is the pydantic
  \<open>Literal["add", "remove"]\<close>, so the handlers' test \<open>data.action not in ["add",
  "remove"]\<close> never succeeds.
\<close>

record FavoriteAction =
  animeId :: string
  action :: action
  fa_title :: "string option"
  fa_image_url :: "string option"

record favorite_item =
  fi_id :: string
  fi_title :: "string option"
  fi_image :: string
  fi_addedAt :: timestamp

record favorites_response =
  fr_status :: string
  fr_action :: action
  fr_count :: nat
  fr_favorites :: "favorite_item list"

definition is_favorite :: "string \<Rightarrow> string \<Rightarrow> favorite_row \<Rightarrow> bool" where
  "is_favorite uid aid r \<longleftrightarrow> fav_user_id r = uid \<and> fav_anime_id r = aid"

text \<open>Python's \<open>not v\<close> on an optional string.\<close>

definition falsy :: "string option \<Rightarrow> bool" where
  "falsy v \<longleftrightarrow> (case v of None \<Rightarrow> True | Some s \<Rightarrow> s = [])"

text \<open>The tail of both handlers: read the user's list back and build the body.\<close>

definition favorites_body :: "tables \<Rightarrow> string \<Rightarrow> action \<Rightarrow> favorites_response" where
  "favorites_body tabs uid a =
     (let favs = map (\<lambda>row. \<lparr>fi_id = fav_anime_id row, fi_title = fav_title row,
                              fi_image = or_placeholder (fav_image_url row),
                              fi_addedAt = fav_created_at row\<rparr>)
                     (order_by_desc fav_created_at
                        (sql_select (\<lambda>r. fav_user_id r = uid) (favorites tabs)))
      in \<lparr>fr_status = ''success'', fr_action = a, fr_count = length favs, fr_favorites = favs\<rparr>)"

text \<open>
  \<open>POST /favorites/{user_id}\<close>, on the shared connection. The 404 for an unknown
  user is raised as it is. \<open>conn.execute("BEGIN TRANSACTION")\<close> stands outside the inner
  \<open>try\<close>: with a transaction left open by an earlier handler it fails with an
  \<open>sqlite3.OperationalError\<close>, which the outer \<open>except Exception\<close> answers with a 500,
  without a rollback. Every \<open>HTTPException\<close> raised after it is rolled back and raised
  again with its own status code. The test \<open>cursor.rowcount == 0\<close> raises for "remove"
  alone; for "add" it only prints.
\<close>

definition update_favorites ::
  "store \<Rightarrow> timestamp \<Rightarrow> string \<Rightarrow> FavoriteAction \<Rightarrow> favorites_response outcome" where
  "update_favorites db now uid data =
     (case fetchone (sql_select (is_user uid) (users (view db))) of
        None \<Rightarrow> Raises (HTTPException 404) (after_read db)
      | Some user \<Rightarrow>
          if transaction db \<noteq> Idle then Raises (HTTPException 500) (after_read db)
          else
            let same = is_favorite uid (animeId data);
                tabs = committed db in
            (case action data of
               Add \<Rightarrow>
                 if falsy (fa_title data) \<or> animeId data = []
                 then Raises (HTTPException 400) (rollback db)
                 else
                   let is_exists = (fetchone (sql_select same (favorites tabs)) \<noteq> None);
                       tabs1 = (if is_exists
                                then tabs\<lparr>favorites :=
                                        sql_update same
                                          (\<lambda>r. r\<lparr>fav_title := fa_title data,
                                                 fav_image_url := fa_image_url data,
                                                 fav_created_at := now\<rparr>)
                                          (favorites tabs)\<rparr>
                                else tabs\<lparr>favorites :=
                                        sql_insert
                                          \<lparr>fav_user_id = uid, fav_anime_id = animeId data,
                                           fav_title = fa_title data,
                                           fav_image_url = fa_image_url data,
                                           fav_created_at = now\<rparr>
                                          (favorites tabs)\<rparr>)
                   in Returns (favorites_body tabs1 uid (action data))
                              (commit (after_write tabs1 db))
             | Remove \<Rightarrow>
                 let tabs1 = tabs\<lparr>favorites := sql_delete same (favorites tabs)\<rparr>;
                     rows_changed = rowcount same (favorites tabs)
                 in if rows_changed = 0
                    then Raises (HTTPException 404) (rollback db)
                    else Returns (favorites_body tabs1 uid (action data))
                                 (commit (after_write tabs1 db))))"

text \<open>
  \<open>POST /favorites/{user_id}/manage\<close>: the same steps, with the outcome of the
  statement kept in \<open>result_status\<close>.
\<close>

definition manage_favorites ::
  "store \<Rightarrow> timestamp \<Rightarrow> string \<Rightarrow> FavoriteAction \<Rightarrow> favorites_response outcome" where
  "manage_favorites db now uid data =
     (case fetchone (sql_select (is_user uid) (users (view db))) of
        None \<Rightarrow> Raises (HTTPException 404) (after_read db)
      | Some user \<Rightarrow>
          if transaction db \<noteq> Idle then Raises (HTTPException 500) (after_read db)
          else
            let same = is_favorite uid (animeId data);
                tabs = committed db in
            (case action data of
               Add \<Rightarrow>
                 if falsy (fa_title data) \<or> animeId data = []
                 then Raises (HTTPException 400) (rollback db)
                 else
                   let (tabs1, result_status) =
                         (if fetchone (sql_select same (favorites tabs)) \<noteq> None
                          then (tabs\<lparr>favorites :=
                                       sql_update same
                                         (\<lambda>r. r\<lparr>fav_title := fa_title data,
                                                fav_image_url := fa_image_url data,
                                                fav_created_at := now\<rparr>)
                                         (favorites tabs)\<rparr>,
                                rowcount same (favorites tabs) > 0)
                          else (tabs\<lparr>favorites :=
                                       sql_insert
                                         \<lparr>fav_user_id = uid, fav_anime_id = animeId data,
                                          fav_title = fa_title data,
                                          fav_image_url = fa_image_url data,
                                          fav_created_at = now\<rparr>
                                         (favorites tabs)\<rparr>,
                                True))
                   in Returns (favorites_body tabs1 uid (action data))
                              (commit (after_write tabs1 db))
             | Remove \<Rightarrow>
                 let tabs1 = tabs\<lparr>favorites := sql_delete same (favorites tabs)\<rparr>;
                     result_status = (rowcount same (favorites tabs) > 0)
                 in if \<not> result_status
                    then Raises (HTTPException 404) (rollback db)
                    else Returns (favorites_body tabs1 uid (action data))
                                 (commit (after_write tabs1 db))))"

section \<open>Achievements\<close>

record unlock_response =
  ur_status :: string
  ur_exp_gained :: int

definition is_unlock :: "string \<Rightarrow> int \<Rightarrow> user_achievement_row \<Rightarrow> bool" where
  "is_unlock uid aid r \<longleftrightarrow> ua_user_id r = uid \<and> ua_achievement_id r = aid"

text \<open>
  \<open>POST /user/{user_id}/achievements/{achievement_id}\<close>, on the shared connection.
  The handler catches \<open>sqlite3.Error\<close> alone and never rolls back.
  \<^item> An \<open>achievement_id\<close> that does not fit an INTEGER is an \<open>OverflowError\<close> at the
    INSERT, after the implicit \<open>BEGIN\<close>, and is not caught.
  \<^item> The INSERT violates \<open>UNIQUE(user_id, achievement_id)\<close> when the row is there
    already: an \<open>sqlite3.IntegrityError\<close>, answered with 500; the transaction stays
    open.
  \<^item> \<open>cursor.fetchone()[0]\<close> on an achievement that is not in the catalog is a
    \<open>TypeError\<close>, not caught: the row inserted before it stays in the open
    transaction.
\<close>

definition unlock_achievement ::
  "store \<Rightarrow> timestamp \<Rightarrow> string \<Rightarrow> int \<Rightarrow> unlock_response outcome" where
  "unlock_achievement db now uid achievement_id =
     (if \<not> sqlite_int achievement_id then Raises OverflowError (implicit_begin db)
      else if \<exists>r\<in>set (user_achievements (view db)). is_unlock uid achievement_id r
      then Raises (HTTPException 500) (after_write (view db) db)
      else
        let tabs1 = (view db)\<lparr>user_achievements :=
                       sql_insert \<lparr>ua_user_id = uid, ua_achievement_id = achievement_id,
                                   ua_unlocked_at = now\<rparr>
                                  (user_achievements (view db))\<rparr>
        in case fetchone (sql_select (\<lambda>a. ach_id a = achievement_id) (achievements tabs1)) of
             None \<Rightarrow> Raises TypeError (after_write tabs1 db)
           | Some a \<Rightarrow>
               let exp_reward = ach_exp_reward a
               in case update_users_exp exp_reward uid (users tabs1) of
                    None \<Rightarrow>
                      Stores_REAL \<lparr>ur_status = ''success'', ur_exp_gained = exp_reward\<rparr>
                  | Some awarded \<Rightarrow>
                      Returns \<lparr>ur_status = ''success'', ur_exp_gained = exp_reward\<rparr>
                              (commit (after_write (tabs1\<lparr>users := awarded\<rparr>) db)))"

section \<open>Example data\<close>

definition no_tables :: tables where
  "no_tables =
     \<lparr>users = [], watch_progress = [], recent = [], favorites = [], achievements = [],
      user_achievements = []\<rparr>"

definition example_user :: user_row where
  "example_user = \<lparr>u_user_id = ''alice'', u_level = 1, u_exp = 950\<rparr>"

definition example_tables :: tables where
  "example_tables =
     no_tables\<lparr>users := [example_user],
               achievements := [\<lparr>ach_id = 1, ach_exp_reward = 100\<rparr>,
                                \<lparr>ach_id = 2, ach_exp_reward = 9223372036854775807\<rparr>]\<rparr>"

definition example_store :: store where
  "example_store = \<lparr>committed = example_tables, transaction = Idle\<rparr>"

definition example_progress :: WatchProgress where
  "example_progress =
     \<lparr>user_id = ''alice'', anime_id = ''a1'', title = Some ''Naruto'', image_url = None,
      status = WATCHING, episodes_watched = 12, total_episodes = Some 12\<rparr>"


text \<open>A count that does not fit an INTEGER.\<close>

definition oversized_progress :: WatchProgress where
  "oversized_progress =
     \<lparr>user_id = ''alice'', anime_id = ''a1'', title = None, image_url = None,
      status = WATCHING, episodes_watched = 9223372036854775808, total_episodes = None\<rparr>"

text \<open>A store with a progress row, as \<open>POST /watch-progress\<close> leaves it.\<close>

definition titled_row :: progress_row where
  "titled_row =
     \<lparr>wp_user_id = ''alice'', wp_anime_id = ''a1'', wp_title = Some ''Naruto'',
      wp_image_url = Some ''/naruto.png'', wp_status = WATCHING,
      wp_episodes_watched = Some 3, wp_total_episodes = Some 12, wp_last_watch_date = 1\<rparr>"

definition titled_store :: store where
  "titled_store =
     \<lparr>committed = no_tables\<lparr>users := [example_user], watch_progress := [titled_row]\<rparr>,
      transaction = Idle\<rparr>"

definition untitled_progress :: WatchProgress where
  "untitled_progress =
     \<lparr>user_id = ''alice'', anime_id = ''a1'', title = None, image_url = None,
      status = WATCHING, episodes_watched = 4, total_episodes = Some 12\<rparr>"

definition steady_progress :: WatchProgress where
  "steady_progress =
     \<lparr>user_id = ''alice'', anime_id = ''a1'', title = None, image_url = None,
      status = WATCHING, episodes_watched = 3, total_episodes = Some 12\<rparr>"



text \<open>Users at the edges of the INTEGER range.\<close>

definition veteran_store :: store where
  "veteran_store =
     \<lparr>committed = no_tables\<lparr>users := [\<lparr>u_user_id = ''bob'', u_level = 2, u_exp = 5000\<rparr>]\<rparr>,
      transaction = Idle\<rparr>"

definition capped_store :: store where
  "capped_store =
     \<lparr>committed = no_tables\<lparr>users := [\<lparr>u_user_id = ''carol'', u_level = 1,
                                       u_exp = 9223372036854775807\<rparr>],
                 achievements := [\<lparr>ach_id = 1, ach_exp_reward = 100\<rparr>]\<rparr>,
      transaction = Idle\<rparr>"

definition capped_progress :: WatchProgress where
  "capped_progress =
     \<lparr>user_id = ''carol'', anime_id = ''a1'', title = None, image_url = None,
      status = WATCHING, episodes_watched = 1, total_episodes = None\<rparr>"

definition titan_store :: store where
  "titan_store =
     \<lparr>committed = no_tables\<lparr>users := [\<lparr>u_user_id = ''dave'', u_level = 9223372036854776,
                                       u_exp = 9223372036854775807\<rparr>]\<rparr>,
      transaction = Idle\<rparr>"

text \<open>
  The example store after \<open>POST /user/alice/achievements/7\<close>, an achievement that
  the catalog does not have: the inserted row waits in the transaction left open.
\<close>

definition abandoned_store :: store where
  "abandoned_store =
     \<lparr>committed = example_tables,
      transaction =
        Holding (example_tables\<lparr>user_achievements :=
                   [\<lparr>ua_user_id = ''alice'', ua_achievement_id = 7, ua_unlocked_at = 3\<rparr>]\<rparr>)\<rparr>"

definition remove_request :: FavoriteAction where
  "remove_request = \<lparr>animeId = ''a1'', action = Remove, fa_title = None, fa_image_url = None\<rparr>"

definition orphan_store :: store where
  "orphan_store =
     \<lparr>committed =
        no_tables\<lparr>watch_progress :=
          [\<lparr>wp_user_id = ''ghost'', wp_anime_id = ''a1'', wp_title = Some ''Naruto'',
            wp_image_url = None, wp_status = COMPLETED,
            wp_episodes_watched = Some 12, wp_total_episodes = Some 12,
            wp_last_watch_date = 1\<rparr>]\<rparr>,
      transaction = Begun\<rparr>"

section \<open>Facts about the SQL statements\<close>

lemmas sql_defs = sql_select_def sql_update_def sql_delete_def sql_insert_def sql_upsert_def
  fetchone_def rowcount_def

lemma fetchone_select_None: "fetchone (sql_select P rows) = None \<longleftrightarrow> (\<forall>x\<in>set rows. \<not> P x)"
  by (induction rows) (auto simp: fetchone_def sql_select_def)

lemma fetchone_select_Some: "fetchone (sql_select P rows) = Some r \<Longrightarrow> r \<in> set rows \<and> P r"
  by (induction rows) (auto simp: fetchone_def sql_select_def split: if_splits)

lemma fetchone_select_update:
  assumes "\<And>r. P (f r) = P r"
  shows "fetchone (sql_select P (sql_update Q f rows)) =
         map_option (\<lambda>r. if Q r then f r else r) (fetchone (sql_select P rows))"
  using assms by (induction rows) (auto simp: fetchone_def sql_select_def sql_update_def)



lemma sql_upsert_all:
  assumes "Q r" and "\<And>x. P x \<Longrightarrow> Q (f x)"
  shows "\<forall>x\<in>set (sql_upsert P r f rows). P x \<longrightarrow> Q x"
  using assms by (auto simp: sql_upsert_def sql_update_def sql_insert_def)



lemma sql_upsert_count:
  assumes "P r" and "\<And>x. P (f x) = P x"
  shows "length (filter P (sql_upsert P r f rows)) = max 1 (length (filter P rows))"
proof (cases "\<exists>x\<in>set rows. P x")
  case True
  then have "filter P rows \<noteq> []" by (simp add: filter_empty_conv)
  then have pos: "1 \<le> length (filter P rows)" by (cases "filter P rows") simp_all
  have "filter P (map (\<lambda>x. if P x then f x else x) rows) = map f (filter P rows)"
    using assms(2) by (induction rows) auto
  with True pos show ?thesis by (simp add: sql_upsert_def sql_update_def)
next
  case False
  then have "filter P rows = []" by (simp add: filter_empty_conv)
  with False assms(1) show ?thesis by (simp add: sql_upsert_def sql_insert_def)
qed

lemma sql_upsert_others:
  assumes "P r" and "\<And>x. P (f x) = P x"
  shows "filter (\<lambda>x. \<not> P x) (sql_upsert P r f rows) = filter (\<lambda>x. \<not> P x) rows"
proof -
  have "filter (\<lambda>x. \<not> P x) (map (\<lambda>x. if P x then f x else x) rows) = filter (\<lambda>x. \<not> P x) rows"
    using assms(2) by (induction rows) auto
  with assms(1) show ?thesis by (simp add: sql_upsert_def sql_update_def sql_insert_def)
qed


section \<open>Facts about the shared connection\<close>

lemma view_free: "\<forall>t. transaction db \<noteq> Holding t \<Longrightarrow> view db = committed db"
  by (cases "transaction db") (simp_all add: view_def)

lemma view_Idle: "transaction db = Idle \<Longrightarrow> view db = committed db"
  by (simp add: view_def)

lemma rollback_Idle: "transaction db = Idle \<Longrightarrow> rollback db = db"
  by (simp add: rollback_def)

lemma commit_after_write: "commit (after_write t db) = \<lparr>committed = t, transaction = Idle\<rparr>"
  by (simp add: commit_def after_write_def view_def)

lemma view_commit: "view (commit db) = view db"
  by (simp add: commit_def view_def)

lemma select_user_commit_write:
  "select_user (commit (after_write t db)) uid = fetchone (sql_select (is_user uid) (users t))"
  by (simp add: select_user_def commit_after_write view_def)

lemmas connection_defs = view_def after_read_def implicit_begin_def after_write_def commit_def
  rollback_def store_of_def

lemmas example_defs = no_tables_def example_user_def example_tables_def example_store_def
  example_progress_def

lemmas handler_defs = update_watch_progress_def existing_progress_def old_status_def
  old_episodes_def given_or_existing_def coalesce_def effective_status_def cascade_condition_def
  update_users_exp_def award_exp_def exp_fits_def sqlite_int_def is_user_def is_progress_def
  is_recent_def select_user_def Let_def

lemma award_exp_Some:
  "award_exp n u = Some u' \<longleftrightarrow>
     exp_fits n u \<and>
     u' = u\<lparr>u_exp := u_exp u + n,
            u_level := (if u_exp u + n \<ge> u_level u * 1000 then u_level u + 1 else u_level u)\<rparr>"
  by (auto simp: award_exp_def)

lemma update_users_exp_fits:
  "(\<exists>awarded. update_users_exp n uid rows = Some awarded) \<longleftrightarrow>
     (\<forall>u\<in>set rows. is_user uid u \<longrightarrow> exp_fits n u)"
  by (auto simp: update_users_exp_def award_exp_def)

text \<open>The user's row after the statement is the user's row before it, awarded.\<close>

lemma fetchone_awarded:
  assumes "update_users_exp n uid rows = Some awarded"
  shows "fetchone (sql_select (is_user uid) awarded) =
           Option.bind (fetchone (sql_select (is_user uid) rows)) (award_exp n)"
proof -
  let ?f = "\<lambda>u. case award_exp n u of Some u' \<Rightarrow> u' | None \<Rightarrow> u"
  from assms have all: "\<forall>u\<in>set rows. is_user uid u \<longrightarrow> award_exp n u \<noteq> None"
    and awarded: "awarded = sql_update (is_user uid) ?f rows"
    by (auto simp: update_users_exp_def split: if_splits)
  have keep: "\<And>r. is_user uid (?f r) = is_user uid r"
    by (auto simp: is_user_def award_exp_def split: option.splits if_splits)
  note upd = fetchone_select_update [where P = "is_user uid" and Q = "is_user uid"
      and f = ?f and rows = rows, OF keep]
  show ?thesis
  proof (cases "fetchone (sql_select (is_user uid) rows)")
    case None
    with upd awarded show ?thesis by simp
  next
    case (Some u)
    then have "u \<in> set rows" "is_user uid u" by (auto dest: fetchone_select_Some)
    with all obtain u' where "award_exp n u = Some u'" by auto
    with Some upd awarded \<open>is_user uid u\<close> show ?thesis by simp
  qed
qed


section \<open>Facts about the handler of POST /watch-progress\<close>

text \<open>What the handler has done when it answers with its body.\<close>

lemma update_watch_progress_Returns:
  assumes "update_watch_progress db now progress = Returns resp db'"
  shows "pr_status resp = effective_status progress"
    and "watch_progress (committed db') =
           sql_upsert (is_progress (user_id progress) (anime_id progress))
             \<lparr>wp_user_id = user_id progress, wp_anime_id = anime_id progress,
              wp_title = given_or_existing (title progress) wp_title
                           (existing_progress db (user_id progress) (anime_id progress)),
              wp_image_url = given_or_existing (image_url progress) wp_image_url
                           (existing_progress db (user_id progress) (anime_id progress)),
              wp_status = effective_status progress,
              wp_episodes_watched = Some (episodes_watched progress),
              wp_total_episodes = total_episodes progress,
              wp_last_watch_date = now\<rparr>
             (\<lambda>r. r\<lparr>wp_episodes_watched := Some (episodes_watched progress),
                    wp_total_episodes := total_episodes progress,
                    wp_status := effective_status progress,
                    wp_title := coalesce (given_or_existing (title progress) wp_title
                           (existing_progress db (user_id progress) (anime_id progress))) (wp_title r),
                    wp_image_url := coalesce (given_or_existing (image_url progress) wp_image_url
                           (existing_progress db (user_id progress) (anime_id progress))) (wp_image_url r),
                    wp_last_watch_date := now\<rparr>)
             (watch_progress (committed db))"
    and "transaction db' = transaction db"
    and "\<forall>t. transaction db \<noteq> Holding t"
    and "fetchone (sql_select (is_user (user_id progress)) (users (committed db))) \<noteq> None"
    and "sqlite_int (episodes_watched progress)"
    and "\<forall>n. total_episodes progress = Some n \<longrightarrow> sqlite_int n"
    and "favorites (committed db') = favorites (committed db)"
    and "achievements (committed db') = achievements (committed db)"
    and "user_achievements (committed db') = user_achievements (committed db)"
  using assms
  by (cases "transaction db";
      auto simp: update_watch_progress_def Let_def split: if_splits sum.splits option.splits)+

text \<open>The handler outside the shared connection's lock, by the outcome of the test.\<close>

lemma update_watch_progress_fired:
  assumes "\<forall>t. transaction db \<noteq> Holding t"
      and "fetchone (sql_select (is_user (user_id progress)) (users (committed db))) \<noteq> None"
      and "sqlite_int (episodes_watched progress)"
      and "\<forall>n. total_episodes progress = Some n \<longrightarrow> sqlite_int n"
      and "\<forall>v\<in>set (users (committed db)). is_user (user_id progress) v \<longrightarrow> exp_fits 100 v"
      and "cascade_condition (old_status (existing_progress db (user_id progress) (anime_id progress)))
             (old_episodes (existing_progress db (user_id progress) (anime_id progress)))
             (effective_status progress) (episodes_watched progress) = Inr True"
  shows "\<exists>resp db'. update_watch_progress db now progress = Returns resp db' \<and>
           recent (committed db') =
             sql_upsert (is_recent (user_id progress) (anime_id progress))
               \<lparr>rc_user_id = user_id progress, rc_anime_id = anime_id progress,
                rc_title = given_or_existing (title progress) wp_title
                             (existing_progress db (user_id progress) (anime_id progress)),
                rc_image_url = given_or_existing (image_url progress) wp_image_url
                             (existing_progress db (user_id progress) (anime_id progress)),
                rc_viewed_at = now\<rparr>
               (\<lambda>r. r\<lparr>rc_viewed_at := now\<rparr>) (recent (committed db)) \<and>
           update_users_exp 100 (user_id progress) (users (committed db)) =
             Some (users (committed db'))"
proof -
  from assms(5) obtain awarded
    where "update_users_exp 100 (user_id progress) (users (committed db)) = Some awarded"
    using update_users_exp_fits [of 100 "user_id progress" "users (committed db)"] by blast
  with assms show ?thesis
    by (cases "transaction db")
       (auto simp: update_watch_progress_def Let_def split: option.splits)
qed

lemma update_watch_progress_not_fired:
  assumes "cascade_condition (old_status (existing_progress db (user_id progress) (anime_id progress)))
             (old_episodes (existing_progress db (user_id progress) (anime_id progress)))
             (effective_status progress) (episodes_watched progress) \<noteq> Inr True"
  shows "\<exists>db'. store_of (update_watch_progress db now progress) = Some db' \<and>
           recent (committed db') = recent (committed db) \<and>
           users (committed db') = users (committed db)"
  using assms
  by (cases "transaction db")
     (auto simp: update_watch_progress_def store_of_def Let_def split: sum.splits option.splits)

lemma cascade_condition_True:
  "cascade_condition (old_status existing) (old_episodes existing) s w = Inr True \<longleftrightarrow>
     ((\<forall>r. existing = Some r \<longrightarrow> wp_status r \<noteq> COMPLETED) \<and> s = COMPLETED) \<or>
     (existing = None \<and> 0 < w) \<or>
     (\<exists>r n. existing = Some r \<and> wp_episodes_watched r = Some n \<and> n < w)"
  by (cases existing)
     (auto simp: cascade_condition_def old_status_def old_episodes_def split: option.splits)



section \<open>Facts about the handler of the unlock\<close>

lemma unlock_achievement_first:
  assumes "sqlite_int achievement_id"
      and "fetchone (sql_select (\<lambda>a. ach_id a = achievement_id) (achievements (view db))) = Some a"
      and "\<not> (\<exists>r\<in>set (user_achievements (view db)). is_unlock uid achievement_id r)"
      and "\<forall>v\<in>set (users (view db)). is_user uid v \<longrightarrow> exp_fits (ach_exp_reward a) v"
  shows "\<exists>awarded.
           update_users_exp (ach_exp_reward a) uid (users (view db)) = Some awarded \<and>
           unlock_achievement db now uid achievement_id =
             Returns \<lparr>ur_status = ''success'', ur_exp_gained = ach_exp_reward a\<rparr>
               \<lparr>committed = (view db)
                  \<lparr>user_achievements := user_achievements (view db) @
                     [\<lparr>ua_user_id = uid, ua_achievement_id = achievement_id,
                       ua_unlocked_at = now\<rparr>],
                   users := awarded\<rparr>,
                transaction = Idle\<rparr>"
proof -
  from assms(4) obtain awarded
    where "update_users_exp (ach_exp_reward a) uid (users (view db)) = Some awarded"
    using update_users_exp_fits [of "ach_exp_reward a" uid "users (view db)"] by blast
  with assms(1-3) show ?thesis
    by (simp add: unlock_achievement_def commit_after_write sql_insert_def Let_def)
qed

section \<open>Status derivation\<close>




section \<open>The history and experience cascade\<close>

text \<open>
  Claim C2 speaks of every call by an existing user. A call whose \<open>episodes_watched\<close>
  does not fit an INTEGER exceeds the stored count, here 0 for want of a row, and yet
  fires nothing: the INSERT raises before the cascade, the handler answers 500 and the
  store is as it was.
\<close>

theorem update_watch_progress_cascade_counterexample:
  "select_user example_store (user_id oversized_progress) = Some example_user \<and>
   existing_progress example_store (user_id oversized_progress) (anime_id oversized_progress) = None \<and>
   0 < episodes_watched oversized_progress \<and>
   update_watch_progress example_store 7 oversized_progress =
     Raises (HTTPException 500) example_store"
  by (simp add: example_defs oversized_progress_def handler_defs connection_defs sql_defs)

text \<open>
  Claim C2, amended. For a call of \<open>POST /watch-progress\<close> by an existing user, made
  while the shared connection holds no lock, with counts that fit an INTEGER and the
  user's level, experience and experience plus 100 fitting an INTEGER; \<open>existing\<close> is
  the row stored for the pair before the call, if any. The cascade fires exactly when
  (a) no stored status was \<open>completed\<close> and the effective status is \<open>completed\<close>, or
  (b) the reported \<open>episodes_watched\<close> exceeds the stored count, taken as 0 without a
  prior row. When it fires, the call answers with its body, every recent marker of the
  pair carries the time of the call, there is one if there was none and as many as
  before otherwise, the other markers are untouched, and the user's experience has grown
  by 100. When it does not fire, the recent and users tables are as they were.
\<close>

theorem update_watch_progress_cascade:
  assumes user: "select_user db (user_id progress) = Some u"
      and free: "\<forall>t. transaction db \<noteq> Holding t"
      and fits: "sqlite_int (episodes_watched progress)"
                "\<forall>n. total_episodes progress = Some n \<longrightarrow> sqlite_int n"
      and award: "\<forall>v\<in>set (users (committed db)). u_user_id v = user_id progress \<longrightarrow>
                    sqlite_int (u_level v) \<and> sqlite_int (u_exp v) \<and> sqlite_int (u_exp v + 100)"
      and existing: "existing_progress db (user_id progress) (anime_id progress) = existing"
  shows "if ((\<forall>r. existing = Some r \<longrightarrow> wp_status r \<noteq> COMPLETED)
               \<and> effective_status progress = COMPLETED) \<or>
            (existing = None \<and> 0 < episodes_watched progress) \<or>
            (\<exists>r n. existing = Some r \<and> wp_episodes_watched r = Some n
                     \<and> n < episodes_watched progress)
         then \<exists>resp db'.
              update_watch_progress db now progress = Returns resp db' \<and>
              (\<forall>r\<in>set (recent (committed db')).
                 is_recent (user_id progress) (anime_id progress) r \<longrightarrow> rc_viewed_at r = now) \<and>
              length (filter (is_recent (user_id progress) (anime_id progress))
                        (recent (committed db'))) =
                max 1 (length (filter (is_recent (user_id progress) (anime_id progress))
                                 (recent (committed db)))) \<and>
              filter (\<lambda>r. \<not> is_recent (user_id progress) (anime_id progress) r)
                     (recent (committed db')) =
                filter (\<lambda>r. \<not> is_recent (user_id progress) (anime_id progress) r)
                       (recent (committed db)) \<and>
              (\<exists>u'. select_user db' (user_id progress) = Some u' \<and> u_exp u' = u_exp u + 100)
         else \<exists>db'.
              store_of (update_watch_progress db now progress) = Some db' \<and>
              recent (committed db') = recent (committed db) \<and>
              users (committed db') = users (committed db)"
proof -
  let ?same = "is_recent (user_id progress) (anime_id progress)"
  let ?cond = "cascade_condition (old_status existing) (old_episodes existing)
                 (effective_status progress) (episodes_watched progress)"
  from user free
  have row: "fetchone (sql_select (is_user (user_id progress)) (users (committed db))) = Some u"
    by (simp add: select_user_def view_free)
  then have known: "fetchone (sql_select (is_user (user_id progress)) (users (committed db))) \<noteq> None"
    by simp
  from award have fit: "\<forall>v\<in>set (users (committed db)). is_user (user_id progress) v \<longrightarrow> exp_fits 100 v"
    by (auto simp: exp_fits_def is_user_def sqlite_int_def)
  show ?thesis
  proof (cases "?cond = Inr True")
    case True
    from update_watch_progress_fired [OF free known fits fit True [folded existing], of now]
    obtain resp db' where call: "update_watch_progress db now progress = Returns resp db'"
      and marked: "recent (committed db') =
             sql_upsert ?same
               \<lparr>rc_user_id = user_id progress, rc_anime_id = anime_id progress,
                rc_title = given_or_existing (title progress) wp_title
                             (existing_progress db (user_id progress) (anime_id progress)),
                rc_image_url = given_or_existing (image_url progress) wp_image_url
                             (existing_progress db (user_id progress) (anime_id progress)),
                rc_viewed_at = now\<rparr>
               (\<lambda>r. r\<lparr>rc_viewed_at := now\<rparr>) (recent (committed db))"
      and awarded: "update_users_exp 100 (user_id progress) (users (committed db)) =
                      Some (users (committed db'))"
      by blast
    have refreshed: "\<forall>r\<in>set (recent (committed db')). ?same r \<longrightarrow> rc_viewed_at r = now"
      unfolding marked by (rule sql_upsert_all) simp_all
    have counted: "length (filter ?same (recent (committed db'))) =
                     max 1 (length (filter ?same (recent (committed db))))"
      unfolding marked by (rule sql_upsert_count) (simp_all add: is_recent_def)
    have others: "filter (\<lambda>r. \<not> ?same r) (recent (committed db')) =
                    filter (\<lambda>r. \<not> ?same r) (recent (committed db))"
      unfolding marked by (rule sql_upsert_others) (simp_all add: is_recent_def)
    from update_watch_progress_Returns(3) [OF call] free
    have "view db' = committed db'" by (simp add: view_free)
    with fetchone_awarded [OF awarded] row
    have "select_user db' (user_id progress) = award_exp 100 u"
      by (simp add: select_user_def)
    moreover from row have "u \<in> set (users (committed db))" "is_user (user_id progress) u"
      by (auto dest: fetchone_select_Some)
    with fit have "exp_fits 100 u" by blast
    ultimately have grown: "\<exists>u'. select_user db' (user_id progress) = Some u' \<and>
                                 u_exp u' = u_exp u + 100"
      by (simp add: award_exp_def)
    from True have fires: "((\<forall>r. existing = Some r \<longrightarrow> wp_status r \<noteq> COMPLETED)
               \<and> effective_status progress = COMPLETED) \<or>
            (existing = None \<and> 0 < episodes_watched progress) \<or>
            (\<exists>r n. existing = Some r \<and> wp_episodes_watched r = Some n
                     \<and> n < episodes_watched progress)"
      unfolding cascade_condition_True .
    show ?thesis
      unfolding if_P [OF fires] using call refreshed counted others grown by blast
  next
    case False
    note quiet = update_watch_progress_not_fired [OF False [folded existing], of now]
    from False have silent: "\<not> (((\<forall>r. existing = Some r \<longrightarrow> wp_status r \<noteq> COMPLETED)
               \<and> effective_status progress = COMPLETED) \<or>
            (existing = None \<and> 0 < episodes_watched progress) \<or>
            (\<exists>r n. existing = Some r \<and> wp_episodes_watched r = Some n
                     \<and> n < episodes_watched progress))"
      unfolding cascade_condition_True .
    show ?thesis
      unfolding if_not_P [OF silent] using quiet by blast
  qed
qed

theorem update_watch_progress_cascade_witness:
  "existing_progress titled_store ''alice'' ''a1'' = Some titled_row \<and>
   update_watch_progress titled_store 7 untitled_progress =
     Returns \<lparr>pr_message = ''Progress updated successfully'', pr_status = WATCHING\<rparr>
       (titled_store\<lparr>committed := (committed titled_store)
          \<lparr>users := [\<lparr>u_user_id = ''alice'', u_level = 2, u_exp = 1050\<rparr>],
           watch_progress := [titled_row\<lparr>wp_episodes_watched := Some 4, wp_last_watch_date := 7\<rparr>],
           recent :=
             [\<lparr>rc_user_id = ''alice'', rc_anime_id = ''a1'', rc_title = Some ''Naruto'',
               rc_image_url = Some ''/naruto.png'', rc_viewed_at = 7\<rparr>]\<rparr>\<rparr>) \<and>
   update_watch_progress titled_store 7 steady_progress =
     Returns \<lparr>pr_message = ''Progress updated successfully'', pr_status = WATCHING\<rparr>
       (titled_store\<lparr>committed := (committed titled_store)
          \<lparr>watch_progress := [titled_row\<lparr>wp_last_watch_date := 7\<rparr>]\<rparr>\<rparr>)"
proof -
  have user: "select_user titled_store (user_id untitled_progress) = Some example_user"
    by (simp add: titled_store_def untitled_progress_def example_defs handler_defs
          connection_defs sql_defs)
  have free: "\<forall>t. transaction titled_store \<noteq> Holding t"
    by (simp add: titled_store_def)
  have fits: "sqlite_int (episodes_watched untitled_progress)"
             "\<forall>n. total_episodes untitled_progress = Some n \<longrightarrow> sqlite_int n"
    by (simp_all add: untitled_progress_def sqlite_int_def)
  have award: "\<forall>v\<in>set (users (committed titled_store)). u_user_id v = user_id untitled_progress \<longrightarrow>
                    sqlite_int (u_level v) \<and> sqlite_int (u_exp v) \<and> sqlite_int (u_exp v + 100)"
    by (simp add: titled_store_def example_defs sqlite_int_def)
  have existing: "existing_progress titled_store (user_id untitled_progress)
                    (anime_id untitled_progress) = Some titled_row"
    by (simp add: titled_store_def untitled_progress_def titled_row_def example_defs
          existing_progress_def is_progress_def sql_defs)
  have user': "select_user titled_store (user_id steady_progress) = Some example_user"
    by (simp add: titled_store_def steady_progress_def example_defs handler_defs
          connection_defs sql_defs)
  have fits': "sqlite_int (episodes_watched steady_progress)"
              "\<forall>n. total_episodes steady_progress = Some n \<longrightarrow> sqlite_int n"
    by (simp_all add: steady_progress_def sqlite_int_def)
  have award': "\<forall>v\<in>set (users (committed titled_store)). u_user_id v = user_id steady_progress \<longrightarrow>
                    sqlite_int (u_level v) \<and> sqlite_int (u_exp v) \<and> sqlite_int (u_exp v + 100)"
    by (simp add: titled_store_def example_defs sqlite_int_def)
  have existing': "existing_progress titled_store (user_id steady_progress)
                    (anime_id steady_progress) = Some titled_row"
    by (simp add: titled_store_def steady_progress_def titled_row_def example_defs
          existing_progress_def is_progress_def sql_defs)
  from update_watch_progress_cascade [OF user free fits award existing, of 7]
  have fired: "\<exists>resp db'. update_watch_progress titled_store 7 untitled_progress = Returns resp db' \<and>
                (\<exists>u'. select_user db' (user_id untitled_progress) = Some u' \<and>
                      u_exp u' = u_exp example_user + 100)"
    by (simp add: titled_row_def untitled_progress_def) blast
  from update_watch_progress_cascade [OF user' free fits' award' existing', of 7]
  have quiet: "\<exists>db'. store_of (update_watch_progress titled_store 7 steady_progress) = Some db' \<and>
                 recent (committed db') = recent (committed titled_store) \<and>
                 users (committed db') = users (committed titled_store)"
    by (simp add: titled_row_def steady_progress_def effective_status_def)
  have one: "update_watch_progress titled_store 7 untitled_progress =
     Returns \<lparr>pr_message = ''Progress updated successfully'', pr_status = WATCHING\<rparr>
       (titled_store\<lparr>committed := (committed titled_store)
          \<lparr>users := [\<lparr>u_user_id = ''alice'', u_level = 2, u_exp = 1050\<rparr>],
           watch_progress := [titled_row\<lparr>wp_episodes_watched := Some 4, wp_last_watch_date := 7\<rparr>],
           recent :=
             [\<lparr>rc_user_id = ''alice'', rc_anime_id = ''a1'', rc_title = Some ''Naruto'',
               rc_image_url = Some ''/naruto.png'', rc_viewed_at = 7\<rparr>]\<rparr>\<rparr>)"
    by (simp add: titled_store_def untitled_progress_def titled_row_def example_defs
          handler_defs sql_defs)
  have two: "update_watch_progress titled_store 7 steady_progress =
     Returns \<lparr>pr_message = ''Progress updated successfully'', pr_status = WATCHING\<rparr>
       (titled_store\<lparr>committed := (committed titled_store)
          \<lparr>watch_progress := [titled_row\<lparr>wp_last_watch_date := 7\<rparr>]\<rparr>\<rparr>)"
    by (simp add: titled_store_def steady_progress_def titled_row_def example_defs
          handler_defs sql_defs)
  from fired quiet one two existing show ?thesis
    by (simp add: untitled_progress_def)
qed

section \<open>Single-step leveling\<close>

text \<open>
  Claim C3 speaks of every level \<open>L\<close>, experience \<open>E\<close> and award \<open>N\<close>. Where \<open>E + N\<close>
  does not fit an INTEGER, SQLite's \<open>exp + ?\<close> is a REAL and the column is left with
  that, not with the sum: so for experience \<open>2^63 - 1\<close> and an award of 100, on both
  paths.
\<close>

theorem single_step_leveling_counterexample:
  "select_user capped_store ''carol'' =
     Some \<lparr>u_user_id = ''carol'', u_level = 1, u_exp = 9223372036854775807\<rparr> \<and>
   update_watch_progress capped_store 7 capped_progress =
     Stores_REAL \<lparr>pr_message = ''Progress updated successfully'', pr_status = WATCHING\<rparr> \<and>
   unlock_achievement capped_store 7 ''carol'' 1 =
     Stores_REAL \<lparr>ur_status = ''success'', ur_exp_gained = 100\<rparr>"
  by (simp add: capped_store_def capped_progress_def no_tables_def unlock_achievement_def
        is_unlock_def handler_defs connection_defs sql_defs)

text \<open>
  Claim C3, amended. A user with level \<open>L\<close> and experience \<open>E\<close> who is awarded \<open>N\<close>
  points, by the progress cascade (\<open>N = 100\<close>) or by the first unlock of an achievement
  of the catalog (\<open>N\<close> its reward), with \<open>L\<close>, \<open>E\<close>, \<open>N\<close> and \<open>E + N\<close> fitting an
  INTEGER, is stored with experience \<open>E + N\<close>, the raw sum, and with level \<open>L + 1\<close> if
  \<open>E + N \<ge> L * 1000\<close>, level \<open>L\<close> otherwise. The cascade awards when its condition
  holds, the shared connection holds no lock and the counts of the request fit an
  INTEGER; the unlock awards when the achievement id fits an INTEGER.
\<close>

theorem single_step_leveling:
  assumes user: "select_user db uid = Some u"
  shows "(user_id progress = uid \<and>
          (\<forall>t. transaction db \<noteq> Holding t) \<and>
          sqlite_int (episodes_watched progress) \<and>
          (\<forall>n. total_episodes progress = Some n \<longrightarrow> sqlite_int n) \<and>
          (\<forall>v\<in>set (users (view db)). u_user_id v = uid \<longrightarrow> exp_fits 100 v) \<and>
          cascade_condition (old_status (existing_progress db uid (anime_id progress)))
            (old_episodes (existing_progress db uid (anime_id progress)))
            (effective_status progress) (episodes_watched progress) = Inr True \<longrightarrow>
            (\<exists>resp db' u'.
                  update_watch_progress db now progress = Returns resp db' \<and>
                  select_user db' uid = Some u' \<and>
                  u_exp u' = u_exp u + 100 \<and>
                  (u_exp u + 100 \<ge> u_level u * 1000 \<longrightarrow> u_level u' = u_level u + 1) \<and>
                  (u_exp u + 100 < u_level u * 1000 \<longrightarrow> u_level u' = u_level u))) \<and>
         (sqlite_int achievement_id \<and>
          fetchone (sql_select (\<lambda>a. ach_id a = achievement_id) (achievements (view db))) = Some a \<and>
          \<not> (\<exists>r\<in>set (user_achievements (view db)). is_unlock uid achievement_id r) \<and>
          (\<forall>v\<in>set (users (view db)). u_user_id v = uid \<longrightarrow> exp_fits (ach_exp_reward a) v) \<longrightarrow>
            (\<exists>resp db' u'.
                  unlock_achievement db now uid achievement_id = Returns resp db' \<and>
                  ur_exp_gained resp = ach_exp_reward a \<and>
                  select_user db' uid = Some u' \<and>
                  u_exp u' = u_exp u + ach_exp_reward a \<and>
                  (u_exp u + ach_exp_reward a \<ge> u_level u * 1000 \<longrightarrow> u_level u' = u_level u + 1) \<and>
                  (u_exp u + ach_exp_reward a < u_level u * 1000 \<longrightarrow> u_level u' = u_level u)))"
proof (intro conjI impI)
  assume fires: "user_id progress = uid \<and>
          (\<forall>t. transaction db \<noteq> Holding t) \<and>
          sqlite_int (episodes_watched progress) \<and>
          (\<forall>n. total_episodes progress = Some n \<longrightarrow> sqlite_int n) \<and>
          (\<forall>v\<in>set (users (view db)). u_user_id v = uid \<longrightarrow> exp_fits 100 v) \<and>
          cascade_condition (old_status (existing_progress db uid (anime_id progress)))
            (old_episodes (existing_progress db uid (anime_id progress)))
            (effective_status progress) (episodes_watched progress) = Inr True"
  then have uid: "user_id progress = uid" and free: "\<forall>t. transaction db \<noteq> Holding t" by simp_all
  from free have seen: "view db = committed db" by (rule view_free)
  from user seen uid
  have row: "fetchone (sql_select (is_user (user_id progress)) (users (committed db))) = Some u"
    by (simp add: select_user_def)
  from fires seen
  have fit: "\<forall>v\<in>set (users (committed db)). is_user (user_id progress) v \<longrightarrow> exp_fits 100 v"
    by (simp add: is_user_def)
  from update_watch_progress_fired [of db progress now] free row fit fires
  obtain resp db' where call: "update_watch_progress db now progress = Returns resp db'"
    and awarded: "update_users_exp 100 (user_id progress) (users (committed db)) =
                    Some (users (committed db'))"
    by auto
  from update_watch_progress_Returns(3) [OF call] free
  have "view db' = committed db'" by (simp add: view_free)
  with fetchone_awarded [OF awarded] row uid
  have "select_user db' uid = award_exp 100 u"
    by (simp add: select_user_def)
  moreover from row have "u \<in> set (users (committed db))" "is_user (user_id progress) u"
    by (auto dest: fetchone_select_Some)
  with fit have "exp_fits 100 u" by blast
  ultimately have "select_user db' uid = Some (u\<lparr>u_exp := u_exp u + 100,
      u_level := (if u_exp u + 100 \<ge> u_level u * 1000 then u_level u + 1 else u_level u)\<rparr>)"
    by (simp add: award_exp_def)
  with call show "\<exists>resp db' u'.
                  update_watch_progress db now progress = Returns resp db' \<and>
                  select_user db' uid = Some u' \<and>
                  u_exp u' = u_exp u + 100 \<and>
                  (u_exp u + 100 \<ge> u_level u * 1000 \<longrightarrow> u_level u' = u_level u + 1) \<and>
                  (u_exp u + 100 < u_level u * 1000 \<longrightarrow> u_level u' = u_level u)"
    by simp
next
  assume first: "sqlite_int achievement_id \<and>
          fetchone (sql_select (\<lambda>a. ach_id a = achievement_id) (achievements (view db))) = Some a \<and>
          \<not> (\<exists>r\<in>set (user_achievements (view db)). is_unlock uid achievement_id r) \<and>
          (\<forall>v\<in>set (users (view db)). u_user_id v = uid \<longrightarrow> exp_fits (ach_exp_reward a) v)"
  then have fit: "\<forall>v\<in>set (users (view db)). is_user uid v \<longrightarrow> exp_fits (ach_exp_reward a) v"
    by (simp add: is_user_def)
  from first fit unlock_achievement_first [of achievement_id db a uid now]
  obtain awarded where
    awarded: "update_users_exp (ach_exp_reward a) uid (users (view db)) = Some awarded"
    and call: "unlock_achievement db now uid achievement_id =
           Returns \<lparr>ur_status = ''success'', ur_exp_gained = ach_exp_reward a\<rparr>
             \<lparr>committed = (view db)
                \<lparr>user_achievements := user_achievements (view db) @
                   [\<lparr>ua_user_id = uid, ua_achievement_id = achievement_id, ua_unlocked_at = now\<rparr>],
                 users := awarded\<rparr>,
              transaction = Idle\<rparr>"
    by blast
  from user have "u \<in> set (users (view db))" "is_user uid u"
    by (auto simp: select_user_def dest: fetchone_select_Some)
  with fit have "exp_fits (ach_exp_reward a) u" by blast
  with fetchone_awarded [OF awarded] user
  have "select_user \<lparr>committed = (view db)
                \<lparr>user_achievements := user_achievements (view db) @
                   [\<lparr>ua_user_id = uid, ua_achievement_id = achievement_id, ua_unlocked_at = now\<rparr>],
                 users := awarded\<rparr>,
              transaction = Idle\<rparr> uid =
          Some (u\<lparr>u_exp := u_exp u + ach_exp_reward a,
                 u_level := (if u_exp u + ach_exp_reward a \<ge> u_level u * 1000
                             then u_level u + 1 else u_level u)\<rparr>)"
    by (simp add: select_user_def view_def award_exp_def)
  with call show "\<exists>resp db' u'.
                  unlock_achievement db now uid achievement_id = Returns resp db' \<and>
                  ur_exp_gained resp = ach_exp_reward a \<and>
                  select_user db' uid = Some u' \<and>
                  u_exp u' = u_exp u + ach_exp_reward a \<and>
                  (u_exp u + ach_exp_reward a \<ge> u_level u * 1000 \<longrightarrow> u_level u' = u_level u + 1) \<and>
                  (u_exp u + ach_exp_reward a < u_level u * 1000 \<longrightarrow> u_level u' = u_level u)"
    by simp
qed

theorem single_step_leveling_witness:
  "select_user example_store ''alice'' = Some \<lparr>u_user_id = ''alice'', u_level = 1, u_exp = 950\<rparr> \<and>
   (\<exists>resp db'. update_watch_progress example_store 7 example_progress = Returns resp db' \<and>
      select_user db' ''alice'' = Some \<lparr>u_user_id = ''alice'', u_level = 2, u_exp = 1050\<rparr>) \<and>
   (\<exists>resp db'. unlock_achievement example_store 7 ''alice'' 1 = Returns resp db' \<and>
      select_user db' ''alice'' = Some \<lparr>u_user_id = ''alice'', u_level = 2, u_exp = 1050\<rparr>)"
proof -
  have user: "select_user example_store ''alice'' = Some example_user"
    by (simp add: example_defs select_user_def is_user_def connection_defs sql_defs)
  have fires: "user_id example_progress = ''alice'' \<and>
          (\<forall>t. transaction example_store \<noteq> Holding t) \<and>
          sqlite_int (episodes_watched example_progress) \<and>
          (\<forall>n. total_episodes example_progress = Some n \<longrightarrow> sqlite_int n) \<and>
          (\<forall>v\<in>set (users (view example_store)). u_user_id v = ''alice'' \<longrightarrow> exp_fits 100 v) \<and>
          cascade_condition (old_status (existing_progress example_store ''alice'' (anime_id example_progress)))
            (old_episodes (existing_progress example_store ''alice'' (anime_id example_progress)))
            (effective_status example_progress) (episodes_watched example_progress) = Inr True"
    by (simp add: example_defs handler_defs connection_defs sql_defs)
  have first: "sqlite_int 1 \<and>
          fetchone (sql_select (\<lambda>a. ach_id a = 1) (achievements (view example_store))) =
                 Some \<lparr>ach_id = 1, ach_exp_reward = 100\<rparr> \<and>
          \<not> (\<exists>r\<in>set (user_achievements (view example_store)). is_unlock ''alice'' 1 r) \<and>
          (\<forall>v\<in>set (users (view example_store)). u_user_id v = ''alice'' \<longrightarrow>
              exp_fits (ach_exp_reward \<lparr>ach_id = 1, ach_exp_reward = 100\<rparr>) v)"
    by (simp add: example_defs exp_fits_def sqlite_int_def connection_defs sql_defs)
  note rule = single_step_leveling [OF user, of example_progress 7 1 "\<lparr>ach_id = 1, ach_exp_reward = 100\<rparr>"]
  from rule fires obtain resp1 db1 u1 where
    u1: "update_watch_progress example_store 7 example_progress = Returns resp1 db1"
        "select_user db1 ''alice'' = Some u1" "u_exp u1 = 1050" "u_level u1 = 2"
    by (auto simp: example_user_def)
  from rule first obtain resp2 db2 u2 where
    u2: "unlock_achievement example_store 7 ''alice'' 1 = Returns resp2 db2"
        "select_user db2 ''alice'' = Some u2" "u_exp u2 = 1050" "u_level u2 = 2"
    by (auto simp: example_user_def)
  from u1(2) have "u_user_id u1 = ''alice''"
    by (auto simp: select_user_def is_user_def dest: fetchone_select_Some)
  with u1 have r1: "u1 = \<lparr>u_user_id = ''alice'', u_level = 2, u_exp = 1050\<rparr>" by (cases u1) simp
  from u2(2) have "u_user_id u2 = ''alice''"
    by (auto simp: select_user_def is_user_def dest: fetchone_select_Some)
  with u2 have r2: "u2 = \<lparr>u_user_id = ''alice'', u_level = 2, u_exp = 1050\<rparr>" by (cases u2) simp
  from user u1 u2 r1 r2 show ?thesis by (simp add: example_user_def)
qed

section \<open>Multi-step rollover\<close>

declare level_up_loop.simps [simp del]

lemma level_up_loop_rollover:
  "n = 1000 * l \<Longrightarrow> level_up_loop l e n = (l', e', n')
     \<Longrightarrow> multi_step_rollover l e (l', e') \<and> n' = 1000 * l' \<and> e' < n'"
proof (induction l e n rule: level_up_loop.induct)
  case (1 l e n)
  show ?case
  proof (cases "e \<ge> n")
    case True
    with "1.prems" have call: "level_up_loop (l + 1) (e - n) (1000 * (l + 1)) = (l', e', n')"
      by (subst (asm) level_up_loop.simps) simp
    from "1.IH" [OF True _ call]
    have "multi_step_rollover (l + 1) (e - n) (l', e') \<and> n' = 1000 * l' \<and> e' < n'" by simp
    with True "1.prems"(1) show ?thesis
      by (auto intro: rollover_step)
  next
    case False
    with "1.prems" have "(l', e', n') = (l, e, n)"
      by (subst (asm) level_up_loop.simps) simp
    with False "1.prems"(1) show ?thesis
      by (auto intro: rollover_done)
  qed
qed

lemma multi_step_rollover_unique:
  "multi_step_rollover l e r \<Longrightarrow> multi_step_rollover l e r' \<Longrightarrow> r = r'"
proof (induction arbitrary: r' rule: multi_step_rollover.induct)
  case (rollover_done e l)
  from rollover_done.prems rollover_done.hyps show ?case
    by (cases rule: multi_step_rollover.cases) auto
next
  case (rollover_step e l r)
  from rollover_step.prems rollover_step.hyps(1) have "multi_step_rollover (l + 1) (e - 1000 * l) r'"
    by (cases rule: multi_step_rollover.cases) auto
  then show ?case by (rule rollover_step.IH)
qed

text \<open>The handler for a user it finds, by the outcome of its loop.\<close>

lemma watch_episode_known:
  assumes "select_user db uid = Some u"
      and "level_up_loop (u_level u) (u_exp u + 100) (1000 * u_level u) = (l', e', n')"
  shows "watch_episode db uid =
           (if sqlite_int l' \<and> sqlite_int e'
            then Returns \<lparr>er_level = l', er_exp = e', er_next_level_exp = n'\<rparr>
                   \<lparr>committed = (view db)
                      \<lparr>users := sql_update (is_user uid) (\<lambda>u. u\<lparr>u_level := l', u_exp := e'\<rparr>)
                                   (users (view db))\<rparr>,
                    transaction = Idle\<rparr>
            else Raises (HTTPException 500) (rollback db))"
  using assms by (simp add: watch_episode_def commit_after_write Let_def)

lemma watch_episode_answers:
  "(\<exists>resp db'. watch_episode db uid = Returns resp db') \<longrightarrow> select_user db uid \<noteq> None"
  by (cases "select_user db uid") (auto simp: watch_episode_def)

lemma select_user_set_level:
  assumes "select_user db uid = Some u"
  shows "select_user \<lparr>committed = (view db)
                      \<lparr>users := sql_update (is_user uid) (\<lambda>u. u\<lparr>u_level := l, u_exp := e\<rparr>)
                                   (users (view db))\<rparr>,
                    transaction = Idle\<rparr> uid
           = Some (u\<lparr>u_level := l, u_exp := e\<rparr>)"
proof -
  have keep: "\<And>r. is_user uid (r\<lparr>u_level := l, u_exp := e\<rparr>) = is_user uid r"
    by (simp add: is_user_def)
  from assms have "is_user uid u"
    by (auto simp: select_user_def dest: fetchone_select_Some)
  with assms fetchone_select_update [where P = "is_user uid" and Q = "is_user uid"
      and f = "\<lambda>u. u\<lparr>u_level := l, u_exp := e\<rparr>" and rows = "users (view db)", OF keep]
  show ?thesis by (simp add: select_user_def view_def)
qed

text \<open>
  Claim C4 speaks of every call for an existing user. Where the experience with its
  100 points does not fit an INTEGER and the level is too high for the loop to bring
  it down, the UPDATE raises, the handler answers 500 and the row stays as it was.
\<close>

theorem watch_episode_rollover_counterexample:
  "select_user titan_store ''dave'' =
     Some \<lparr>u_user_id = ''dave'', u_level = 9223372036854776, u_exp = 9223372036854775807\<rparr> \<and>
   watch_episode titan_store ''dave'' = Raises (HTTPException 500) titan_store"
  by (simp add: titan_store_def no_tables_def watch_episode_def select_user_def is_user_def
        sqlite_int_def connection_defs sql_defs level_up_loop.simps Let_def)

text \<open>
  Claim C4, amended. \<open>POST /user/{user_id}/watch-episode\<close> for an existing user with
  level \<open>L\<close> and experience \<open>E\<close> adds 100 points and rolls over as the specification
  words it, to the one pair that \<open>multi_step_rollover\<close> relates to \<open>L\<close> and \<open>E + 100\<close>.
  If that level and experience fit an INTEGER, the answer and the stored row carry
  them, and the threshold answered is 1000 times the new level; if they do not, the
  handler answers 500 and stores nothing. From level 1 and 950 points the pair is
  level 2 and 50 points; from level 2 and 5000 points one award crosses two levels.
\<close>

theorem watch_episode_rollover:
  assumes user: "select_user db uid = Some u"
  shows "\<exists>l' e'. multi_step_rollover (u_level u) (u_exp u + 100) (l', e') \<and>
           (\<forall>r. multi_step_rollover (u_level u) (u_exp u + 100) r \<longrightarrow> r = (l', e')) \<and>
           (if sqlite_int l' \<and> sqlite_int e'
            then \<exists>db'. watch_episode db uid =
                     Returns \<lparr>er_level = l', er_exp = e', er_next_level_exp = 1000 * l'\<rparr> db' \<and>
                   select_user db' uid = Some (u\<lparr>u_level := l', u_exp := e'\<rparr>)
            else watch_episode db uid = Raises (HTTPException 500) (rollback db))"
proof -
  obtain l' e' n' where loop: "level_up_loop (u_level u) (u_exp u + 100) (1000 * u_level u) = (l', e', n')"
    by (cases "level_up_loop (u_level u) (u_exp u + 100) (1000 * u_level u)") auto
  from level_up_loop_rollover [OF refl loop]
  have spec: "multi_step_rollover (u_level u) (u_exp u + 100) (l', e')" and n': "n' = 1000 * l'"
    by simp_all
  from spec have only: "\<forall>r. multi_step_rollover (u_level u) (u_exp u + 100) r \<longrightarrow> r = (l', e')"
    by (blast dest: multi_step_rollover_unique)
  note call = watch_episode_known [OF user loop]
  have "if sqlite_int l' \<and> sqlite_int e'
            then \<exists>db'. watch_episode db uid =
                     Returns \<lparr>er_level = l', er_exp = e', er_next_level_exp = 1000 * l'\<rparr> db' \<and>
                   select_user db' uid = Some (u\<lparr>u_level := l', u_exp := e'\<rparr>)
            else watch_episode db uid = Raises (HTTPException 500) (rollback db)"
  proof (cases "sqlite_int l' \<and> sqlite_int e'")
    case True
    with call n' select_user_set_level [OF user, where l = l' and e = e'] show ?thesis by simp
  next
    case False
    with call show ?thesis by simp
  qed
  with spec only show ?thesis by blast
qed

theorem watch_episode_rollover_witness:
  "watch_episode example_store ''alice'' =
     Returns \<lparr>er_level = 2, er_exp = 50, er_next_level_exp = 2000\<rparr>
       (example_store\<lparr>committed := example_tables
          \<lparr>users := [\<lparr>u_user_id = ''alice'', u_level = 2, u_exp = 50\<rparr>]\<rparr>\<rparr>) \<and>
   (\<exists>db'. watch_episode veteran_store ''bob'' =
      Returns \<lparr>er_level = 4, er_exp = 100, er_next_level_exp = 4000\<rparr> db')"
proof -
  have alice: "select_user example_store ''alice'' = Some example_user"
    by (simp add: example_defs select_user_def is_user_def connection_defs sql_defs)
  have bob: "select_user veteran_store ''bob'' = Some \<lparr>u_user_id = ''bob'', u_level = 2, u_exp = 5000\<rparr>"
    by (simp add: veteran_store_def no_tables_def select_user_def is_user_def connection_defs sql_defs)
  have "multi_step_rollover 2 50 (2, 50)"
    by (rule rollover_done) simp
  with rollover_step [where l = 1 and e = 1050 and r = "(2, 50)"]
  have one: "multi_step_rollover 1 (950 + 100) (2, 50)"
    by simp
  have "multi_step_rollover 4 100 (4, 100)"
    by (rule rollover_done) simp
  with rollover_step [where l = 3 and e = 3100 and r = "(4, 100)"]
  have "multi_step_rollover 3 3100 (4, 100)"
    by simp
  with rollover_step [where l = 2 and e = 5100 and r = "(4, 100)"]
  have two: "multi_step_rollover 2 (5000 + 100) (4, 100)"
    by simp
  from watch_episode_rollover [OF alice] one
  have a: "\<exists>db'. watch_episode example_store ''alice'' =
             Returns \<lparr>er_level = 2, er_exp = 50, er_next_level_exp = 2000\<rparr> db'"
    by (auto simp: example_user_def sqlite_int_def)
  from watch_episode_rollover [OF bob] two
  have b: "\<exists>db'. watch_episode veteran_store ''bob'' =
             Returns \<lparr>er_level = 4, er_exp = 100, er_next_level_exp = 4000\<rparr> db'"
    by (auto simp: sqlite_int_def)
  have "store_of (watch_episode example_store ''alice'') =
          Some (example_store\<lparr>committed := example_tables
                  \<lparr>users := [\<lparr>u_user_id = ''alice'', u_level = 2, u_exp = 50\<rparr>]\<rparr>\<rparr>)"
    by (simp add: example_defs watch_episode_def select_user_def is_user_def sqlite_int_def
          connection_defs sql_defs level_up_loop.simps Let_def)
  with a b show ?thesis by (auto simp: store_of_def)
qed

text \<open>
  Claim C10. Whenever \<open>POST /user/{user_id}/watch-episode\<close> answers with its body,
  the experience answered is below the threshold answered, which is 1000 times the
  level answered, and the user's stored row carries that level and experience.
\<close>

theorem watch_episode_exp_below_threshold:
  assumes call: "watch_episode db uid = Returns resp db'"
  shows "er_exp resp < er_next_level_exp resp \<and>
         er_next_level_exp resp = 1000 * er_level resp \<and>
         (\<exists>u'. select_user db' uid = Some u' \<and> u_level u' = er_level resp \<and>
               u_exp u' = er_exp resp \<and> u_exp u' < 1000 * u_level u')"
proof -
  from call watch_episode_answers [of db uid] obtain u where user: "select_user db uid = Some u"
    by auto
  obtain l' e' n' where loop: "level_up_loop (u_level u) (u_exp u + 100) (1000 * u_level u) = (l', e', n')"
    by (cases "level_up_loop (u_level u) (u_exp u + 100) (1000 * u_level u)") auto
  from level_up_loop_rollover [OF refl loop] have exit: "n' = 1000 * l'" "e' < n'"
    by simp_all
  from watch_episode_known [OF user loop] call
  have resp: "resp = \<lparr>er_level = l', er_exp = e', er_next_level_exp = n'\<rparr>"
    and db': "db' = \<lparr>committed = (view db)
                      \<lparr>users := sql_update (is_user uid) (\<lambda>u. u\<lparr>u_level := l', u_exp := e'\<rparr>)
                                   (users (view db))\<rparr>,
                    transaction = Idle\<rparr>"
    by (simp_all split: if_splits)
  from select_user_set_level [OF user, where l = l' and e = e'] db'
  have "select_user db' uid = Some (u\<lparr>u_level := l', u_exp := e'\<rparr>)" by simp
  with resp exit show ?thesis by simp
qed

theorem watch_episode_exp_below_threshold_witness:
  "watch_episode veteran_store ''bob'' =
     Returns \<lparr>er_level = 4, er_exp = 100, er_next_level_exp = 4000\<rparr>
       (veteran_store\<lparr>committed := no_tables
          \<lparr>users := [\<lparr>u_user_id = ''bob'', u_level = 4, u_exp = 100\<rparr>]\<rparr>\<rparr>) \<and>
   (100::int) < 4000"
proof -
  have call: "watch_episode veteran_store ''bob'' =
     Returns \<lparr>er_level = 4, er_exp = 100, er_next_level_exp = 4000\<rparr>
       (veteran_store\<lparr>committed := no_tables
          \<lparr>users := [\<lparr>u_user_id = ''bob'', u_level = 4, u_exp = 100\<rparr>]\<rparr>\<rparr>)"
    by (simp add: watch_episode_def veteran_store_def no_tables_def select_user_def is_user_def
          sqlite_int_def connection_defs sql_defs level_up_loop.simps Let_def)
  from watch_episode_exp_below_threshold [OF call] call show ?thesis by simp
qed

section \<open>The upsert\<close>




section \<open>Repeating an upsert\<close>









section \<open>Unlocking an achievement\<close>

text \<open>
  Claim C7 says that the first unlock applies the achievement's reward. Where the
  experience with the reward does not fit an INTEGER, what the UPDATE leaves in the
  column is a REAL, not the sum: so for the second achievement of the example catalog,
  whose reward is \<open>2^63 - 1\<close>.
\<close>

theorem unlock_achievement_twice_counterexample:
  "select_user example_store ''alice'' = Some \<lparr>u_user_id = ''alice'', u_level = 1, u_exp = 950\<rparr> \<and>
   fetchone (sql_select (\<lambda>a. ach_id a = 2) (achievements (view example_store))) =
     Some \<lparr>ach_id = 2, ach_exp_reward = 9223372036854775807\<rparr> \<and>
   user_achievements (view example_store) = [] \<and>
   unlock_achievement example_store 3 ''alice'' 2 =
     Stores_REAL \<lparr>ur_status = ''success'', ur_exp_gained = 9223372036854775807\<rparr>"
  by (simp add: example_defs unlock_achievement_def is_unlock_def handler_defs
        connection_defs sql_defs)

text \<open>
  Claim C7, amended. For an achievement of the catalog that the user has not unlocked
  yet, with an id that fits an INTEGER and a reward that leaves the user's experience
  within the INTEGER range, two calls of
  \<open>POST /user/{user_id}/achievements/{achievement_id}\<close> in sequence: the first
  answers success with the achievement's reward, appends the one row of the
  (user, achievement) pair and commits; the second fails with status 500 on the
  uniqueness constraint and changes no table, leaving its transaction open. A user of
  the users table ends up with the reward added once, under the single-step rule.
\<close>

theorem unlock_achievement_twice:
  assumes fits: "sqlite_int achievement_id"
      and catalog: "fetchone (sql_select (\<lambda>a. ach_id a = achievement_id) (achievements (view db))) = Some a"
      and fresh: "\<not> (\<exists>r\<in>set (user_achievements (view db)). is_unlock uid achievement_id r)"
      and award: "\<forall>v\<in>set (users (view db)). u_user_id v = uid \<longrightarrow> exp_fits (ach_exp_reward a) v"
  shows "\<exists>db1 db2.
           unlock_achievement db t1 uid achievement_id =
             Returns \<lparr>ur_status = ''success'', ur_exp_gained = ach_exp_reward a\<rparr> db1 \<and>
           transaction db1 = Idle \<and>
           user_achievements (committed db1) = user_achievements (view db) @
             [\<lparr>ua_user_id = uid, ua_achievement_id = achievement_id, ua_unlocked_at = t1\<rparr>] \<and>
           length (filter (is_unlock uid achievement_id) (user_achievements (committed db1))) = 1 \<and>
           unlock_achievement db1 t2 uid achievement_id = Raises (HTTPException 500) db2 \<and>
           committed db2 = committed db1 \<and> view db2 = view db1 \<and>
           transaction db2 = Holding (committed db1) \<and>
           (\<forall>u. select_user db uid = Some u \<longrightarrow>
              (\<exists>u'. select_user db2 uid = Some u' \<and>
                    u_exp u' = u_exp u + ach_exp_reward a \<and>
                    u_level u' = (if u_exp u + ach_exp_reward a \<ge> u_level u * 1000
                                  then u_level u + 1 else u_level u)))"
proof -
  from award have fit: "\<forall>v\<in>set (users (view db)). is_user uid v \<longrightarrow> exp_fits (ach_exp_reward a) v"
    by (simp add: is_user_def)
  from unlock_achievement_first [OF fits catalog fresh fit, of t1]
  obtain awarded where
    awarded: "update_users_exp (ach_exp_reward a) uid (users (view db)) = Some awarded"
    and first: "unlock_achievement db t1 uid achievement_id =
           Returns \<lparr>ur_status = ''success'', ur_exp_gained = ach_exp_reward a\<rparr>
             \<lparr>committed = (view db)
                \<lparr>user_achievements := user_achievements (view db) @
                   [\<lparr>ua_user_id = uid, ua_achievement_id = achievement_id, ua_unlocked_at = t1\<rparr>],
                 users := awarded\<rparr>,
              transaction = Idle\<rparr>"
    by blast
  let ?db1 = "\<lparr>committed = (view db)
                \<lparr>user_achievements := user_achievements (view db) @
                   [\<lparr>ua_user_id = uid, ua_achievement_id = achievement_id, ua_unlocked_at = t1\<rparr>],
                 users := awarded\<rparr>,
              transaction = Idle\<rparr>"
  let ?db2 = "?db1\<lparr>transaction := Holding (committed ?db1)\<rparr>"
  from fresh have "filter (is_unlock uid achievement_id) (user_achievements (view db)) = []"
    by (simp add: filter_empty_conv)
  then have one: "length (filter (is_unlock uid achievement_id) (user_achievements (committed ?db1))) = 1"
    by (simp add: is_unlock_def)
  have "\<exists>r\<in>set (user_achievements (view ?db1)). is_unlock uid achievement_id r"
    by (simp add: is_unlock_def view_def)
  with fits have second: "unlock_achievement ?db1 t2 uid achievement_id = Raises (HTTPException 500) ?db2"
    by (simp add: unlock_achievement_def after_write_def view_def)
  have rewarded: "\<exists>u'. select_user ?db2 uid = Some u' \<and>
                  u_exp u' = u_exp u + ach_exp_reward a \<and>
                  u_level u' = (if u_exp u + ach_exp_reward a \<ge> u_level u * 1000
                                then u_level u + 1 else u_level u)"
    if "select_user db uid = Some u" for u
  proof -
    from that have "u \<in> set (users (view db))" "is_user uid u"
      by (auto simp: select_user_def dest: fetchone_select_Some)
    with fit have "exp_fits (ach_exp_reward a) u" by blast
    with fetchone_awarded [OF awarded] that show ?thesis
      by (simp add: select_user_def view_def award_exp_def)
  qed
  from first one second rewarded show ?thesis
    by (intro exI [of _ ?db1] exI [of _ ?db2]) (simp add: view_def)
qed

theorem unlock_achievement_twice_witness:
  "unlock_achievement example_store 3 ''alice'' 1 =
     Returns \<lparr>ur_status = ''success'', ur_exp_gained = 100\<rparr>
       (example_store\<lparr>committed := example_tables
          \<lparr>users := [\<lparr>u_user_id = ''alice'', u_level = 2, u_exp = 1050\<rparr>],
           user_achievements :=
             [\<lparr>ua_user_id = ''alice'', ua_achievement_id = 1, ua_unlocked_at = 3\<rparr>]\<rparr>\<rparr>) \<and>
   unlock_achievement
       (example_store\<lparr>committed := example_tables
          \<lparr>users := [\<lparr>u_user_id = ''alice'', u_level = 2, u_exp = 1050\<rparr>],
           user_achievements :=
             [\<lparr>ua_user_id = ''alice'', ua_achievement_id = 1, ua_unlocked_at = 3\<rparr>]\<rparr>\<rparr>)
       4 ''alice'' 1 =
     Raises (HTTPException 500)
       \<lparr>committed = example_tables
          \<lparr>users := [\<lparr>u_user_id = ''alice'', u_level = 2, u_exp = 1050\<rparr>],
           user_achievements :=
             [\<lparr>ua_user_id = ''alice'', ua_achievement_id = 1, ua_unlocked_at = 3\<rparr>]\<rparr>,
        transaction = Holding (example_tables
          \<lparr>users := [\<lparr>u_user_id = ''alice'', u_level = 2, u_exp = 1050\<rparr>],
           user_achievements :=
             [\<lparr>ua_user_id = ''alice'', ua_achievement_id = 1, ua_unlocked_at = 3\<rparr>]\<rparr>)\<rparr>"
proof -
  let ?db1 = "example_store\<lparr>committed := example_tables
          \<lparr>users := [\<lparr>u_user_id = ''alice'', u_level = 2, u_exp = 1050\<rparr>],
           user_achievements :=
             [\<lparr>ua_user_id = ''alice'', ua_achievement_id = 1, ua_unlocked_at = 3\<rparr>]\<rparr>\<rparr>"
  have fits: "sqlite_int 1" by (simp add: sqlite_int_def)
  have catalog: "fetchone (sql_select (\<lambda>a. ach_id a = 1) (achievements (view example_store))) =
                   Some \<lparr>ach_id = 1, ach_exp_reward = 100\<rparr>"
    by (simp add: example_defs connection_defs sql_defs)
  have fresh: "\<not> (\<exists>r\<in>set (user_achievements (view example_store)). is_unlock ''alice'' 1 r)"
    by (simp add: example_defs connection_defs)
  have award: "\<forall>v\<in>set (users (view example_store)). u_user_id v = ''alice'' \<longrightarrow>
                 exp_fits (ach_exp_reward \<lparr>ach_id = 1, ach_exp_reward = 100\<rparr>) v"
    by (simp add: example_defs exp_fits_def sqlite_int_def connection_defs)
  from unlock_achievement_twice [OF fits catalog fresh award, of 3 4]
  obtain db1 db2 where
    first: "unlock_achievement example_store 3 ''alice'' 1 =
              Returns \<lparr>ur_status = ''success'', ur_exp_gained = 100\<rparr> db1"
    and second: "unlock_achievement db1 4 ''alice'' 1 = Raises (HTTPException 500) db2"
    and same: "committed db2 = committed db1" "transaction db2 = Holding (committed db1)"
    by auto
  have "unlock_achievement example_store 3 ''alice'' 1 =
          Returns \<lparr>ur_status = ''success'', ur_exp_gained = 100\<rparr> ?db1"
    by (simp add: example_defs unlock_achievement_def is_unlock_def handler_defs
          connection_defs sql_defs)
  with first have db1: "db1 = ?db1" by simp
  from same db1 have "db2 = \<lparr>committed = committed ?db1, transaction = Holding (committed ?db1)\<rparr>"
    by (cases db2) simp
  with first second db1 show ?thesis by (simp add: example_defs)
qed

section \<open>Removing a favorite that is not there\<close>

text \<open>
  Claim C8 says that the call fails with Not-Found. Both handlers issue
  \<open>BEGIN TRANSACTION\<close> on the shared connection; with a transaction left open there,
  here by an unlock of an achievement that the catalog does not have, both answer 500.
\<close>

theorem favorites_remove_missing_counterexample:
  "unlock_achievement example_store 3 ''alice'' 7 = Raises TypeError abandoned_store \<and>
   select_user abandoned_store ''alice'' = Some example_user \<and>
   favorites (view abandoned_store) = [] \<and>
   update_favorites abandoned_store 5 ''alice'' remove_request =
     Raises (HTTPException 500) abandoned_store \<and>
   manage_favorites abandoned_store 5 ''alice'' remove_request =
     Raises (HTTPException 500) abandoned_store"
  by (simp add: example_defs abandoned_store_def remove_request_def unlock_achievement_def
        update_favorites_def manage_favorites_def is_unlock_def handler_defs
        connection_defs sql_defs)

text \<open>
  Claim C8, amended. A "remove" by an existing user for a (user, anime) pair without a
  favorites row, made while the shared connection has no transaction open, fails with
  404 on both endpoints and leaves the store, the favorites table in particular, as
  it was.
\<close>

theorem favorites_remove_missing:
  assumes user: "select_user db uid = Some u"
      and remove: "action data = Remove"
      and missing: "\<not> (\<exists>r\<in>set (favorites (view db)). is_favorite uid (animeId data) r)"
      and idle: "transaction db = Idle"
  shows "update_favorites db now uid data = Raises (HTTPException 404) db \<and>
         manage_favorites db now uid data = Raises (HTTPException 404) db"
proof -
  from idle have seen: "view db = committed db" by (rule view_Idle)
  from missing seen have none: "rowcount (is_favorite uid (animeId data)) (favorites (committed db)) = 0"
    by (simp add: rowcount_def filter_empty_conv)
  from user have known: "fetchone (sql_select (is_user uid) (users (view db))) = Some u"
    by (simp add: select_user_def)
  from known remove none idle
  have "update_favorites db now uid data = Raises (HTTPException 404) db"
    by (simp add: update_favorites_def rollback_Idle Let_def)
  moreover from known remove none idle
  have "manage_favorites db now uid data = Raises (HTTPException 404) db"
    by (simp add: manage_favorites_def rollback_Idle Let_def)
  ultimately show ?thesis by simp
qed

theorem favorites_remove_missing_witness:
  "update_favorites example_store 5 ''alice'' remove_request =
     Raises (HTTPException 404) example_store \<and>
   manage_favorites example_store 5 ''alice'' remove_request =
     Raises (HTTPException 404) example_store"
proof -
  have user: "select_user example_store ''alice'' = Some example_user"
    by (simp add: example_defs select_user_def is_user_def connection_defs sql_defs)
  have remove: "action remove_request = Remove"
    by (simp add: remove_request_def)
  have missing: "\<not> (\<exists>r\<in>set (favorites (view example_store)).
                      is_favorite ''alice'' (animeId remove_request) r)"
    by (simp add: example_defs connection_defs)
  have idle: "transaction example_store = Idle"
    by (simp add: example_store_def)
  from favorites_remove_missing [OF user remove missing idle] show ?thesis by simp
qed

section \<open>Reading the progress of an unknown user\<close>

text \<open>
  Claim C9. \<open>GET /watch-progress/{user_id}\<close> for a user id that is not in the users
  table raises nothing: it answers with empty \<open>completed\<close> and \<open>inProgress\<close> lists and
  with all five statistics zero, whatever progress rows the store holds for that id and
  whatever state the shared connection is in; the commit that ends the handler's
  \<open>with conn:\<close> block is all it does to the store.
\<close>

theorem get_user_watch_progress_unknown_user:
  assumes "\<forall>u\<in>set (users (view db)). u_user_id u \<noteq> uid"
  shows "get_user_watch_progress db uid =
           Returns \<lparr>completed = [], inProgress = [],
                    stats = \<lparr>totalEpisodesWatched = 0, totalTimeSpent = 0, averageRating = 0,
                             completed_count = 0, watching_count = 0\<rparr>\<rparr>
                   (commit db)"
proof -
  from assms have "fetchone (sql_select (is_user uid) (users (view db))) = None"
    by (simp add: fetchone_select_None is_user_def)
  then show ?thesis by (simp add: get_user_watch_progress_def)
qed

theorem get_user_watch_progress_unknown_user_witness:
  "get_user_watch_progress orphan_store ''ghost'' =
     Returns \<lparr>completed = [], inProgress = [],
              stats = \<lparr>totalEpisodesWatched = 0, totalTimeSpent = 0, averageRating = 0,
                       completed_count = 0, watching_count = 0\<rparr>\<rparr>
             (orphan_store\<lparr>transaction := Idle\<rparr>) \<and>
   map wp_user_id (watch_progress (view orphan_store)) = [''ghost'']"
proof -
  have unknown: "\<forall>u\<in>set (users (view orphan_store)). u_user_id u \<noteq> ''ghost''"
    by (simp add: orphan_store_def no_tables_def connection_defs)
  from get_user_watch_progress_unknown_user [OF unknown] show ?thesis
    by (simp add: orphan_store_def no_tables_def connection_defs)
qed

end
